theory Spec2Isabelle
  imports Main
begin

section \<open>Pagination utilities (utils/pagination.ts)\<close>

text \<open>
  The TypeScript type \<^verbatim>\<open>number\<close> is used for offsets, page sizes and totals only; the
  model takes them as unbounded integers (\<^typ>\<open>int\<close>). An optional property
  (\<^verbatim>\<open>maxResults?: number\<close>) is an \<^typ>\<open>int option\<close>, where \<open>None\<close> stands for
  \<^verbatim>\<open>undefined\<close>; an optional argument is an option of the record.
\<close>

record PaginationParams =
  maxResults_opt :: "int option"
  startAt_opt :: "int option"

text \<open>\<^verbatim>\<open>Required<PaginationParams>\<close>: both properties present.\<close>

record RequiredPaginationParams =
  maxResults :: int
  startAt :: int

text \<open>
  \<^verbatim>\<open>PaginatedResponse<T>\<close> has the two properties of the cursor and three more, so it is
  the record of the cursor, extended.
\<close>

record 'a PaginatedResponse = RequiredPaginationParams +
  "values" :: "'a list"
  total :: int
  isLast :: bool

definition DEFAULT_PAGINATION :: RequiredPaginationParams where
  "DEFAULT_PAGINATION = \<lparr>maxResults = 50, startAt = 0\<rparr>"

text \<open>
  \<^verbatim>\<open>params?.maxResults ?? DEFAULT_PAGINATION.maxResults\<close>: the default is taken when the
  argument or the property is undefined, and only then (\<^verbatim>\<open>??\<close> keeps a zero).
\<close>

definition createPaginationParams :: "PaginationParams option \<Rightarrow> RequiredPaginationParams" where
  "createPaginationParams params =
     \<lparr>maxResults =
        (case (case params of None \<Rightarrow> None | Some p \<Rightarrow> maxResults_opt p) of
           None \<Rightarrow> maxResults DEFAULT_PAGINATION
         | Some v \<Rightarrow> v),
      startAt =
        (case (case params of None \<Rightarrow> None | Some p \<Rightarrow> startAt_opt p) of
           None \<Rightarrow> startAt DEFAULT_PAGINATION
         | Some v \<Rightarrow> v)\<rparr>"

text \<open>
  A value of type \<^verbatim>\<open>Required<PaginationParams>\<close> passed where a
  \<^verbatim>\<open>PaginationParams\<close> is expected: the same object, both properties present.
\<close>

definition asPaginationParams :: "RequiredPaginationParams \<Rightarrow> PaginationParams" where
  "asPaginationParams r = \<lparr>maxResults_opt = Some (maxResults r), startAt_opt = Some (startAt r)\<rparr>"

definition createPaginatedResponse ::
  "'a list \<Rightarrow> int \<Rightarrow> RequiredPaginationParams \<Rightarrow> 'a PaginatedResponse" where
  "createPaginatedResponse vs tot params =
     (let maxResults' = maxResults params;
          startAt' = startAt params;
          isLast' = (startAt' + int (length vs) \<ge> tot)
      in \<lparr>maxResults = maxResults', startAt = startAt',
          values = vs, total = tot, isLast = isLast'\<rparr>)"

subsection \<open>The aggregation loop\<close>











section \<open>Error normalisation (utils/error.ts)\<close>

text \<open>
  The body of a failed response, \<^verbatim>\<open>JiraApiError\<close>. Either property may be missing at
  run time (a body that is not the documented object has neither). The
  \<^verbatim>\<open>Record<string, string>\<close> is the list of its entries in the order of
  \<^verbatim>\<open>Object.keys\<close>.
\<close>

record JiraApiError =
  body_errorMessages :: "string list option"
  body_errors :: "(string \<times> string) list option"

text \<open>\<^verbatim>\<open>AxiosError.response\<close>: the status and the parsed body (\<open>None\<close>: no body).\<close>

record AxiosResponse =
  response_status :: int
  response_data :: "JiraApiError option"

record AxiosError =
  axios_message :: string
  axios_response :: "AxiosResponse option"

text \<open>
  What a \<^verbatim>\<open>catch (error)\<close> can receive, as \<^verbatim>\<open>handleApiError\<close> tells the values
  apart: an Axios error, another instance of \<^verbatim>\<open>Error\<close> (with its message), or any
  other thrown value.
\<close>

datatype failure = AxiosFailure AxiosError | ErrorObject string | OtherValue

record JiraError =
  message :: string
  status :: int
  errors :: "(string \<times> string) list"
  errorMessages :: "string list"

text \<open>The constructor of \<^verbatim>\<open>JiraError\<close>; \<open>None\<close> is an argument left out.\<close>

definition newJiraError ::
  "string \<Rightarrow> int option \<Rightarrow> (string \<times> string) list option \<Rightarrow> string list option \<Rightarrow> JiraError" where
  "newJiraError message' status' errors' errorMessages' =
     \<lparr>message = message',
      status = (case status' of None \<Rightarrow> 500 | Some s \<Rightarrow> s),
      errors = (case errors' of None \<Rightarrow> [] | Some es \<Rightarrow> es),
      errorMessages = (case errorMessages' of None \<Rightarrow> [] | Some ms \<Rightarrow> ms)\<rparr>"

text \<open>
  \<^verbatim>\<open>axiosError.response?.status || 500\<close> takes 500 for a missing response and for a
  falsy status, which for an integer is 0. \<^verbatim>\<open>data.errorMessages || []\<close> replaces a
  missing list only. \<^verbatim>\<open>Object.keys(errors)\<close> and \<^verbatim>\<open>Object.values(errors)\<close> are the
  two projections of the entries.
\<close>

definition handleApiError :: "failure \<Rightarrow> JiraError" where
  "handleApiError error =
     (case error of
        AxiosFailure axiosError \<Rightarrow>
          (let status' =
                 (case axios_response axiosError of
                    None \<Rightarrow> 500
                  | Some r \<Rightarrow> if response_status r = 0 then 500 else response_status r);
               data = (case axios_response axiosError of None \<Rightarrow> None | Some r \<Rightarrow> response_data r)
           in case data of
                Some d \<Rightarrow>
                  (let errorMessages' = (case body_errorMessages d of None \<Rightarrow> [] | Some ms \<Rightarrow> ms);
                       errors' = (case body_errors d of None \<Rightarrow> [] | Some es \<Rightarrow> es);
                       message' =
                         (if length errorMessages' > 0 then errorMessages' ! 0
                          else if length (map fst errors') > 0
                            then (map fst errors' ! 0) @ '': '' @ (map snd errors' ! 0)
                            else axios_message axiosError)
                   in newJiraError message' (Some status') (Some errors') (Some errorMessages'))
              | None \<Rightarrow> newJiraError (axios_message axiosError) (Some status') None None)
      | ErrorObject m \<Rightarrow> newJiraError m None None None
      | OtherValue \<Rightarrow> newJiraError ''Unknown error occurred'' None None None)"

section \<open>The transport base (api/base.ts)\<close>

text \<open>
  A verb of the Axios instance: given the URL and what is sent with it, it acts on the
  world \<open>'w\<close> (the network, the server) and resolves with the data of the response or
  rejects with a failure. The type of the data is the type argument the caller gives
  to \<^verbatim>\<open>this.get<T>\<close>.
\<close>

datatype qvalue = QString string | QNumber int | QBool bool

type_synonym config = "(string \<times> qvalue) list option"

type_synonym ('w, 'r) axios_get = "string \<Rightarrow> config \<Rightarrow> 'w \<Rightarrow> (failure + 'r) \<times> 'w"

type_synonym ('w, 'b, 'r) axios_send = "string \<Rightarrow> 'b \<Rightarrow> config \<Rightarrow> 'w \<Rightarrow> (failure + 'r) \<times> 'w"

text \<open>
  \<^verbatim>\<open>BaseApiClient.get\<close>, \<^verbatim>\<open>post\<close> and \<^verbatim>\<open>put\<close>: the data of the response, or the failure
  rethrown through \<^const>\<open>handleApiError\<close>.
\<close>

definition get :: "('w, 'r) axios_get \<Rightarrow> string \<Rightarrow> config \<Rightarrow> 'w \<Rightarrow> (JiraError + 'r) \<times> 'w" where
  "get client_get url cfg w =
     (case client_get url cfg w of
        (Inr data, w') \<Rightarrow> (Inr data, w')
      | (Inl error, w') \<Rightarrow> (Inl (handleApiError error), w'))"

definition post ::
  "('w, 'b, 'r) axios_send \<Rightarrow> string \<Rightarrow> 'b \<Rightarrow> config \<Rightarrow> 'w \<Rightarrow> (JiraError + 'r) \<times> 'w" where
  "post client_post url body cfg w =
     (case client_post url body cfg w of
        (Inr data, w') \<Rightarrow> (Inr data, w')
      | (Inl error, w') \<Rightarrow> (Inl (handleApiError error), w'))"

definition put ::
  "('w, 'b, 'r) axios_send \<Rightarrow> string \<Rightarrow> 'b \<Rightarrow> config \<Rightarrow> 'w \<Rightarrow> (JiraError + 'r) \<times> 'w" where
  "put client_put url body cfg w =
     (case client_put url body cfg w of
        (Inr data, w') \<Rightarrow> (Inr data, w')
      | (Inl error, w') \<Rightarrow> (Inl (handleApiError error), w'))"

section \<open>The resource clients (api/issues.ts, api/projects.ts, api/users.ts)\<close>

text \<open>
  Every operation takes the verb of the Axios instance it uses as its first
  argument, then its own arguments, then the world. The entities (issues, comments,
  projects, users) are passed through unread, so their types are parameters.
\<close>

subsection \<open>Issues\<close>

text \<open>The body posted to \<^verbatim>\<open>/search\<close> and the data of its response.\<close>

record SearchRequest =
  jql :: string
  request_startAt :: int
  request_maxResults :: int
  request_fields :: "string list"

record 'i SearchReply =
  issues :: "'i list"
  search_total :: int
  search_startAt :: int
  search_maxResults :: int

definition searchIssues ::
  "('w, SearchRequest, 'i SearchReply) axios_send \<Rightarrow> string \<Rightarrow> string list option
     \<Rightarrow> PaginationParams option \<Rightarrow> 'w \<Rightarrow> (JiraError + 'i PaginatedResponse) \<times> 'w" where
  "searchIssues client_post jql' fields' pagination w =
     (let params = createPaginationParams pagination;
          data =
            \<lparr>jql = jql',
             request_startAt = startAt params,
             request_maxResults = maxResults params,
             request_fields =
               (case fields' of
                  Some fs \<Rightarrow> fs
                | None \<Rightarrow>
                    [''summary'', ''status'', ''assignee'', ''priority'', ''issuetype'',
                     ''created'', ''updated''])\<rparr>
      in case post client_post ''/search'' data None w of
           (Inl e, w') \<Rightarrow> (Inl e, w')
         | (Inr response, w') \<Rightarrow>
             (Inr (createPaginatedResponse (issues response) (search_total response) params), w'))"

text \<open>
  A transition as the client reads it: its id and its name. The data of
  \<^verbatim>\<open>GET /issue/{key}/transitions\<close> is an object with the list of them.
\<close>

record JiraTransition =
  transition_id :: string
  transition_name :: string

record TransitionsReply =
  transitions :: "JiraTransition list"

definition getTransitions ::
  "('w, TransitionsReply) axios_get \<Rightarrow> string \<Rightarrow> 'w \<Rightarrow> (JiraError + JiraTransition list) \<times> 'w" where
  "getTransitions client_get issueIdOrKey w =
     (case get client_get (''/issue/'' @ issueIdOrKey @ ''/transitions'') None w of
        (Inl e, w') \<Rightarrow> (Inl e, w')
      | (Inr response, w') \<Rightarrow> (Inr (transitions response), w'))"

text \<open>The body \<^verbatim>\<open>{ transition: { id } }\<close> of the transition request.\<close>

record TransitionRequest =
  transition :: string

text \<open>
  \<^verbatim>\<open>transitionIssue\<close> rejects with a \<^verbatim>\<open>JiraError\<close> of the transport or with a plain
  \<^verbatim>\<open>Error\<close> of its own.
\<close>

datatype error = Jira JiraError | PlainError string

definition notFoundMessage :: "string \<Rightarrow> string \<Rightarrow> string" where
  "notFoundMessage transitionIdOrName issueIdOrKey =
     ''Transition '' @ [CHR 0x22] @ transitionIdOrName @ [CHR 0x22]
       @ '' not found for issue '' @ issueIdOrKey"

definition transitionIssue ::
  "('w, TransitionsReply) axios_get \<Rightarrow> ('w, TransitionRequest, unit) axios_send
     \<Rightarrow> string \<Rightarrow> string \<Rightarrow> 'w \<Rightarrow> (error + unit) \<times> 'w" where
  "transitionIssue client_get client_post issueIdOrKey transitionIdOrName w =
     (case getTransitions client_get issueIdOrKey w of
        (Inl e, w') \<Rightarrow> (Inl (Jira e), w')
      | (Inr transitions', w') \<Rightarrow>
          (case find (\<lambda>t. transition_id t = transitionIdOrName
                         \<or> transition_name t = transitionIdOrName) transitions' of
             None \<Rightarrow> (Inl (PlainError (notFoundMessage transitionIdOrName issueIdOrKey)), w')
           | Some t \<Rightarrow>
               (case post client_post (''/issue/'' @ issueIdOrKey @ ''/transitions'')
                       \<lparr>transition = transition_id t\<rparr> None w' of
                  (Inl e, w'') \<Rightarrow> (Inl (Jira e), w'')
                | (Inr u, w'') \<Rightarrow> (Inr (), w''))))"

text \<open>
  The selection as the specification words it: the first candidate whose id is the
  input, and only when there is none the first candidate whose name is the input.
\<close>

definition selectIdThenName :: "JiraTransition list \<Rightarrow> string \<Rightarrow> JiraTransition option" where
  "selectIdThenName candidates x =
     (case find (\<lambda>t. transition_id t = x) candidates of
        Some t \<Rightarrow> Some t
      | None \<Rightarrow> find (\<lambda>t. transition_name t = x) candidates)"

record 'c CommentsReply =
  comments :: "'c list"
  comments_total :: int
  comments_startAt :: int
  comments_maxResults :: int

definition getComments ::
  "('w, 'c CommentsReply) axios_get \<Rightarrow> string \<Rightarrow> PaginationParams option \<Rightarrow> 'w
     \<Rightarrow> (JiraError + 'c PaginatedResponse) \<times> 'w" where
  "getComments client_get issueIdOrKey pagination w =
     (let params = createPaginationParams pagination;
          cfg = Some [(''startAt'', QNumber (startAt params)),
                      (''maxResults'', QNumber (maxResults params))]
      in case get client_get (''/issue/'' @ issueIdOrKey @ ''/comment'') cfg w of
           (Inl e, w') \<Rightarrow> (Inl e, w')
         | (Inr response, w') \<Rightarrow>
             (Inr (createPaginatedResponse (comments response) (comments_total response) params),
              w'))"

text \<open>
  The body of \<^verbatim>\<open>PUT /issue/{key}/assignee\<close>; \<open>None\<close> is \<^verbatim>\<open>null\<close>. The argument
  \<^verbatim>\<open>accountId: string | null\<close> is tested for truthiness: \<^verbatim>\<open>null\<close> and the empty string
  are falsy.
\<close>

record AssigneeRequest =
  accountId :: "string option"

definition truthy :: "string option \<Rightarrow> bool" where
  "truthy v = (case v of None \<Rightarrow> False | Some s \<Rightarrow> s \<noteq> [])"

definition assignIssue ::
  "('w, AssigneeRequest, unit) axios_send \<Rightarrow> string \<Rightarrow> string option \<Rightarrow> 'w
     \<Rightarrow> (JiraError + unit) \<times> 'w" where
  "assignIssue client_put issueIdOrKey accountId' w =
     (let data = (if truthy accountId' then \<lparr>accountId = accountId'\<rparr> else \<lparr>accountId = None\<rparr>)
      in case put client_put (''/issue/'' @ issueIdOrKey @ ''/assignee'') data None w of
           (Inl e, w') \<Rightarrow> (Inl e, w')
         | (Inr u, w') \<Rightarrow> (Inr (), w'))"

subsection \<open>Projects\<close>

definition getAllProjects ::
  "('w, 'p list) axios_get \<Rightarrow> PaginationParams option \<Rightarrow> 'w
     \<Rightarrow> (JiraError + 'p PaginatedResponse) \<times> 'w" where
  "getAllProjects client_get pagination w =
     (let params = createPaginationParams pagination;
          cfg = Some [(''startAt'', QNumber (startAt params)),
                      (''maxResults'', QNumber (maxResults params))]
      in case get client_get ''/project'' cfg w of
           (Inl e, w') \<Rightarrow> (Inl e, w')
         | (Inr projects, w') \<Rightarrow>
             (Inr (createPaginatedResponse projects (int (length projects)) params), w'))"

text \<open>The data of \<^verbatim>\<open>GET /project/search\<close>, which reports \<^verbatim>\<open>isLast\<close> itself.\<close>

record 'p ProjectSearchReply =
  reply_values :: "'p list"
  reply_total :: int
  reply_isLast :: bool

definition searchProjects ::
  "('w, 'p ProjectSearchReply) axios_get \<Rightarrow> string \<Rightarrow> PaginationParams option \<Rightarrow> 'w
     \<Rightarrow> (JiraError + 'p PaginatedResponse) \<times> 'w" where
  "searchProjects client_get query pagination w =
     (let params = createPaginationParams pagination;
          cfg = Some [(''query'', QString query),
                      (''startAt'', QNumber (startAt params)),
                      (''maxResults'', QNumber (maxResults params))]
      in case get client_get ''/project/search'' cfg w of
           (Inl e, w') \<Rightarrow> (Inl e, w')
         | (Inr response, w') \<Rightarrow>
             (Inr \<lparr>maxResults = maxResults params,
                   startAt = startAt params,
                   values = reply_values response,
                   total = reply_total response,
                   isLast = reply_isLast response\<rparr>, w'))"

subsection \<open>Users\<close>

definition searchUsers ::
  "('w, 'u list) axios_get \<Rightarrow> string \<Rightarrow> PaginationParams option \<Rightarrow> 'w
     \<Rightarrow> (JiraError + 'u PaginatedResponse) \<times> 'w" where
  "searchUsers client_get query pagination w =
     (let params = createPaginationParams pagination;
          cfg = Some [(''query'', QString query),
                      (''startAt'', QNumber (startAt params)),
                      (''maxResults'', QNumber (maxResults params))]
      in case get client_get ''/user/search'' cfg w of
           (Inl e, w') \<Rightarrow> (Inl e, w')
         | (Inr users, w') \<Rightarrow>
             (Inr (createPaginatedResponse users (int (length users)) params), w'))"

definition getAssignableUsers ::
  "('w, 'u list) axios_get \<Rightarrow> string \<Rightarrow> PaginationParams option \<Rightarrow> 'w
     \<Rightarrow> (JiraError + 'u PaginatedResponse) \<times> 'w" where
  "getAssignableUsers client_get projectIdOrKey pagination w =
     (let params = createPaginationParams pagination;
          cfg = Some [(''project'', QString projectIdOrKey),
                      (''startAt'', QNumber (startAt params)),
                      (''maxResults'', QNumber (maxResults params))]
      in case get client_get ''/user/assignable/search'' cfg w of
           (Inl e, w') \<Rightarrow> (Inl e, w')
         | (Inr users, w') \<Rightarrow>
             (Inr (createPaginatedResponse users (int (length users)) params), w'))"

section \<open>Test doubles\<close>

text \<open>
  Transports for the examples, in the manner of the mocks of the test suite. The
  first two ignore the request and resolve with a fixed reply, leaving the world
  alone; the third records what it is sent, the world being the list of the
  requests made so far.
\<close>

definition resolveWith :: "'r \<Rightarrow> ('w, 'r) axios_get" where
  "resolveWith reply url cfg w = (Inr reply, w)"

definition resolveSend :: "'r \<Rightarrow> ('w, 'b, 'r) axios_send" where
  "resolveSend reply url body cfg w = (Inr reply, w)"

definition recordSend :: "((string \<times> 'b) list, 'b, unit) axios_send" where
  "recordSend url body cfg w = (Inr (), w @ [(url, body)])"

text \<open>
  A server of \<^verbatim>\<open>/search\<close> or of the comments that reports another cursor in its reply
  than the given transport does, everything else being equal.
\<close>

definition searchReporting ::
  "int \<Rightarrow> int \<Rightarrow> ('w, 'b, 'i SearchReply) axios_send \<Rightarrow> ('w, 'b, 'i SearchReply) axios_send" where
  "searchReporting a b client_post url body cfg w =
     (case client_post url body cfg w of
        (Inr reply, w') \<Rightarrow> (Inr (reply\<lparr>search_startAt := a, search_maxResults := b\<rparr>), w')
      | (Inl f, w') \<Rightarrow> (Inl f, w'))"

definition commentsReporting ::
  "int \<Rightarrow> int \<Rightarrow> ('w, 'c CommentsReply) axios_get \<Rightarrow> ('w, 'c CommentsReply) axios_get" where
  "commentsReporting a b client_get url cfg w =
     (case client_get url cfg w of
        (Inr reply, w') \<Rightarrow> (Inr (reply\<lparr>comments_startAt := a, comments_maxResults := b\<rparr>), w')
      | (Inl f, w') \<Rightarrow> (Inl f, w'))"

section \<open>Properties\<close>

subsection \<open>Normalising the cursor\<close>

text \<open>
  C8. \<^verbatim>\<open>createPaginationParams\<close> is a function of its argument alone: it reads the
  constant \<^const>\<open>DEFAULT_PAGINATION\<close>, which nothing in the library writes, and builds a
  fresh object, so two calls on the same input give equal results. Without an
  argument and on the empty object it gives the defaults, 50 results from offset 0.
  A property that is present is kept, one that is absent gets its default, each
  independently of the other. Normalising a normalised cursor gives it back.
\<close>

theorem createPaginationParams_spec:
  "createPaginationParams None = \<lparr>maxResults = 50, startAt = 0\<rparr>
   \<and> createPaginationParams (Some \<lparr>maxResults_opt = None, startAt_opt = None\<rparr>)
       = \<lparr>maxResults = 50, startAt = 0\<rparr>
   \<and> startAt (createPaginationParams (Some \<lparr>maxResults_opt = m, startAt_opt = Some v\<rparr>)) = v
   \<and> startAt (createPaginationParams (Some \<lparr>maxResults_opt = m, startAt_opt = None\<rparr>)) = 0
   \<and> maxResults (createPaginationParams (Some \<lparr>maxResults_opt = Some v, startAt_opt = s\<rparr>)) = v
   \<and> maxResults (createPaginationParams (Some \<lparr>maxResults_opt = None, startAt_opt = s\<rparr>)) = 50
   \<and> createPaginationParams (Some (asPaginationParams (createPaginationParams p)))
       = createPaginationParams p"
  by (simp add: createPaginationParams_def DEFAULT_PAGINATION_def asPaginationParams_def)

subsection \<open>What the transport wrappers and the listing operations return\<close>

lemma createPaginatedResponse_fields:
  "createPaginatedResponse vs tot params =
     \<lparr>maxResults = maxResults params, startAt = startAt params, values = vs, total = tot,
      isLast = (tot \<le> startAt params + int (length vs))\<rparr>"
  by (simp add: createPaginatedResponse_def Let_def)

lemma createPaginatedResponse_derived:
  "r = createPaginatedResponse vs tot params \<Longrightarrow>
     isLast r = (startAt r + int (length (values r)) \<ge> total r)"
  by (simp add: createPaginatedResponse_fields)

lemma searchIssues_Inr:
  assumes "fst (searchIssues cp j f pg w) = Inr r"
  shows "\<exists>body reply w'. cp ''/search'' body None w = (Inr reply, w')
        \<and> request_startAt body = startAt (createPaginationParams pg)
        \<and> request_maxResults body = maxResults (createPaginationParams pg)
        \<and> r = createPaginatedResponse (issues reply) (search_total reply) (createPaginationParams pg)"
proof -
  define body where "body = \<lparr>jql = j, request_startAt = startAt (createPaginationParams pg),
             request_maxResults = maxResults (createPaginationParams pg),
             request_fields =
               (case f of
                  Some fs \<Rightarrow> fs
                | None \<Rightarrow>
                    [''summary'', ''status'', ''assignee'', ''priority'', ''issuetype'',
                     ''created'', ''updated''])\<rparr>"
  obtain res w' where c: "cp ''/search'' body None w = (res, w')"
    by (cases "cp ''/search'' body None w")
  from assms c obtain reply where "res = Inr reply"
    and "r = createPaginatedResponse (issues reply) (search_total reply) (createPaginationParams pg)"
    by (cases res) (auto simp: searchIssues_def Let_def post_def body_def)
  with c have "cp ''/search'' body None w = (Inr reply, w')
        \<and> request_startAt body = startAt (createPaginationParams pg)
        \<and> request_maxResults body = maxResults (createPaginationParams pg)
        \<and> r = createPaginatedResponse (issues reply) (search_total reply) (createPaginationParams pg)"
    by (simp add: body_def)
  then show ?thesis by blast
qed

lemma getComments_Inr:
  "fst (getComments cg k pg w) = Inr r \<Longrightarrow>
     \<exists>cfg reply w'. cg (''/issue/'' @ k @ ''/comment'') cfg w = (Inr reply, w')
        \<and> r = createPaginatedResponse (comments reply) (comments_total reply) (createPaginationParams pg)"
  by (auto simp: getComments_def Let_def get_def split: prod.splits sum.splits)

lemma getAllProjects_Inr:
  "fst (getAllProjects cg pg w) = Inr r \<Longrightarrow>
     \<exists>cfg projects w'. cg ''/project'' cfg w = (Inr projects, w')
        \<and> r = createPaginatedResponse projects (int (length projects)) (createPaginationParams pg)"
  by (auto simp: getAllProjects_def Let_def get_def split: prod.splits sum.splits)

lemma searchUsers_Inr:
  "fst (searchUsers cg q pg w) = Inr r \<Longrightarrow>
     \<exists>cfg users w'. cg ''/user/search'' cfg w = (Inr users, w')
        \<and> r = createPaginatedResponse users (int (length users)) (createPaginationParams pg)"
  by (auto simp: searchUsers_def Let_def get_def split: prod.splits sum.splits)

lemma getAssignableUsers_Inr:
  "fst (getAssignableUsers cg q pg w) = Inr r \<Longrightarrow>
     \<exists>cfg users w'. cg ''/user/assignable/search'' cfg w = (Inr users, w')
        \<and> r = createPaginatedResponse users (int (length users)) (createPaginationParams pg)"
  by (auto simp: getAssignableUsers_def Let_def get_def split: prod.splits sum.splits)

lemma searchProjects_Inr:
  "fst (searchProjects cg q pg w) = Inr r \<Longrightarrow>
     \<exists>cfg reply w'. cg ''/project/search'' cfg w = (Inr reply, w')
        \<and> r = \<lparr>maxResults = maxResults (createPaginationParams pg),
                 startAt = startAt (createPaginationParams pg),
                 values = reply_values reply, total = reply_total reply,
                 isLast = reply_isLast reply\<rparr>"
  by (auto simp: searchProjects_def Let_def get_def split: prod.splits sum.splits)

subsection \<open>The derived field \<^verbatim>\<open>isLast\<close>\<close>

text \<open>
  C1, as amended. Every page that \<^verbatim>\<open>searchIssues\<close>, \<^verbatim>\<open>getComments\<close>,
  \<^verbatim>\<open>getAllProjects\<close>, \<^verbatim>\<open>searchUsers\<close> or \<^verbatim>\<open>getAssignableUsers\<close> returns has
  \<^verbatim>\<open>isLast\<close> equal to \<^verbatim>\<open>startAt + values.length >= total\<close>: these five build the page
  with \<^verbatim>\<open>createPaginatedResponse\<close>. \<^verbatim>\<open>searchProjects\<close> builds the page itself and
  returns the \<^verbatim>\<open>isLast\<close> of the upstream reply.
\<close>

theorem listing_isLast:
  "(fst (searchIssues cp j f pg w) = Inr r1 \<longrightarrow>
      isLast r1 = (startAt r1 + int (length (values r1)) \<ge> total r1))
   \<and> (fst (getComments cg2 k2 pg w) = Inr r2 \<longrightarrow>
      isLast r2 = (startAt r2 + int (length (values r2)) \<ge> total r2))
   \<and> (fst (getAllProjects cg3 pg w) = Inr r3 \<longrightarrow>
      isLast r3 = (startAt r3 + int (length (values r3)) \<ge> total r3))
   \<and> (fst (searchUsers cg4 q4 pg w) = Inr r4 \<longrightarrow>
      isLast r4 = (startAt r4 + int (length (values r4)) \<ge> total r4))
   \<and> (fst (getAssignableUsers cg5 k5 pg w) = Inr r5 \<longrightarrow>
      isLast r5 = (startAt r5 + int (length (values r5)) \<ge> total r5))
   \<and> (fst (searchProjects cg6 q6 pg w) = Inr r6 \<longrightarrow>
      (\<exists>cfg reply w'. cg6 ''/project/search'' cfg w = (Inr reply, w')
         \<and> isLast r6 = reply_isLast reply))"
proof (intro conjI impI)
  assume "fst (searchIssues cp j f pg w) = Inr r1"
  then show "isLast r1 = (startAt r1 + int (length (values r1)) \<ge> total r1)"
    using searchIssues_Inr createPaginatedResponse_derived by metis
next
  assume "fst (getComments cg2 k2 pg w) = Inr r2"
  then show "isLast r2 = (startAt r2 + int (length (values r2)) \<ge> total r2)"
    using getComments_Inr createPaginatedResponse_derived by metis
next
  assume "fst (getAllProjects cg3 pg w) = Inr r3"
  then show "isLast r3 = (startAt r3 + int (length (values r3)) \<ge> total r3)"
    using getAllProjects_Inr createPaginatedResponse_derived by metis
next
  assume "fst (searchUsers cg4 q4 pg w) = Inr r4"
  then show "isLast r4 = (startAt r4 + int (length (values r4)) \<ge> total r4)"
    using searchUsers_Inr createPaginatedResponse_derived by metis
next
  assume "fst (getAssignableUsers cg5 k5 pg w) = Inr r5"
  then show "isLast r5 = (startAt r5 + int (length (values r5)) \<ge> total r5)"
    using getAssignableUsers_Inr createPaginatedResponse_derived by metis
next
  assume "fst (searchProjects cg6 q6 pg w) = Inr r6"
  from searchProjects_Inr[OF this] obtain cfg reply w' where
    "cg6 ''/project/search'' cfg w = (Inr reply, w')" and
    "r6 = \<lparr>maxResults = maxResults (createPaginationParams pg),
                 startAt = startAt (createPaginationParams pg),
                 values = reply_values reply, total = reply_total reply,
                 isLast = reply_isLast reply\<rparr>" by blast
  then have "cg6 ''/project/search'' cfg w = (Inr reply, w') \<and> isLast r6 = reply_isLast reply"
    by simp
  then show "\<exists>cfg reply w'. cg6 ''/project/search'' cfg w = (Inr reply, w')
         \<and> isLast r6 = reply_isLast reply" by blast
qed

text \<open>One successful call of each of the six operations.\<close>

theorem listing_isLast_witness:
  "fst (searchIssues
          (resolveSend \<lparr>issues = [1::nat, 2], search_total = 5, search_startAt = 0,
             search_maxResults = 2\<rparr>)
          ''project = X'' None (Some \<lparr>maxResults_opt = Some 2, startAt_opt = None\<rparr>) ())
     = Inr \<lparr>maxResults = 2, startAt = 0, values = [1::nat, 2], total = 5, isLast = False\<rparr>
   \<and> isLast \<lparr>maxResults = 2, startAt = 0, values = [1::nat, 2], total = 5, isLast = False\<rparr>
     = (startAt \<lparr>maxResults = 2, startAt = 0, values = [1::nat, 2], total = 5, isLast = False\<rparr>
          + int (length (values \<lparr>maxResults = 2, startAt = 0, values = [1::nat, 2], total = 5, isLast = False\<rparr>))
        \<ge> total \<lparr>maxResults = 2, startAt = 0, values = [1::nat, 2], total = 5, isLast = False\<rparr>)
   \<and> fst (getComments
          (resolveWith \<lparr>comments = [''a''], comments_total = 3, comments_startAt = 2,
             comments_maxResults = 1\<rparr>)
          ''TEST-1'' (Some \<lparr>maxResults_opt = Some 1, startAt_opt = Some 2\<rparr>) ())
     = Inr \<lparr>maxResults = 1, startAt = 2, values = [''a''], total = 3, isLast = True\<rparr>
   \<and> isLast \<lparr>maxResults = 1, startAt = 2, values = [''a''], total = 3, isLast = True\<rparr>
     = (startAt \<lparr>maxResults = 1, startAt = 2, values = [''a''], total = 3, isLast = True\<rparr>
          + int (length (values \<lparr>maxResults = 1, startAt = 2, values = [''a''], total = 3, isLast = True\<rparr>))
        \<ge> total \<lparr>maxResults = 1, startAt = 2, values = [''a''], total = 3, isLast = True\<rparr>)
   \<and> fst (getAllProjects (resolveWith [''P1'', ''P2'']) None ())
     = Inr \<lparr>maxResults = 50, startAt = 0, values = [''P1'', ''P2''], total = 2, isLast = True\<rparr>
   \<and> isLast \<lparr>maxResults = 50, startAt = 0, values = [''P1'', ''P2''], total = 2, isLast = True\<rparr>
     = (startAt \<lparr>maxResults = 50, startAt = 0, values = [''P1'', ''P2''], total = 2, isLast = True\<rparr>
          + int (length (values \<lparr>maxResults = 50, startAt = 0, values = [''P1'', ''P2''], total = 2, isLast = True\<rparr>))
        \<ge> total \<lparr>maxResults = 50, startAt = 0, values = [''P1'', ''P2''], total = 2, isLast = True\<rparr>)
   \<and> fst (searchUsers (resolveWith [''u1'']) ''john'' None ())
     = Inr \<lparr>maxResults = 50, startAt = 0, values = [''u1''], total = 1, isLast = True\<rparr>
   \<and> isLast \<lparr>maxResults = 50, startAt = 0, values = [''u1''], total = 1, isLast = True\<rparr>
     = (startAt \<lparr>maxResults = 50, startAt = 0, values = [''u1''], total = 1, isLast = True\<rparr>
          + int (length (values \<lparr>maxResults = 50, startAt = 0, values = [''u1''], total = 1, isLast = True\<rparr>))
        \<ge> total \<lparr>maxResults = 50, startAt = 0, values = [''u1''], total = 1, isLast = True\<rparr>)
   \<and> fst (getAssignableUsers (resolveWith [''u1'', ''u2'', ''u3'']) ''TEST'' None ())
     = Inr \<lparr>maxResults = 50, startAt = 0, values = [''u1'', ''u2'', ''u3''], total = 3,
            isLast = True\<rparr>
   \<and> isLast \<lparr>maxResults = 50, startAt = 0, values = [''u1'', ''u2'', ''u3''], total = 3,
            isLast = True\<rparr>
     = (startAt \<lparr>maxResults = 50, startAt = 0, values = [''u1'', ''u2'', ''u3''], total = 3,
            isLast = True\<rparr>
          + int (length (values \<lparr>maxResults = 50, startAt = 0, values = [''u1'', ''u2'', ''u3''], total = 3,
            isLast = True\<rparr>))
        \<ge> total \<lparr>maxResults = 50, startAt = 0, values = [''u1'', ''u2'', ''u3''], total = 3,
            isLast = True\<rparr>)
   \<and> fst (searchProjects
          (resolveWith \<lparr>reply_values = [''P1''], reply_total = 4, reply_isLast = False\<rparr>)
          ''P'' None ())
     = Inr \<lparr>maxResults = 50, startAt = 0, values = [''P1''], total = 4, isLast = False\<rparr>
   \<and> (\<exists>cfg reply w'.
         resolveWith \<lparr>reply_values = [''P1''], reply_total = 4, reply_isLast = False\<rparr>
           ''/project/search'' cfg () = (Inr reply, w')
         \<and> isLast \<lparr>maxResults = 50, startAt = 0, values = [''P1''], total = 4, isLast = False\<rparr>
             = reply_isLast reply)"
proof -
  have h1: "fst (searchIssues
          (resolveSend \<lparr>issues = [1::nat, 2], search_total = 5, search_startAt = 0,
             search_maxResults = 2\<rparr>)
          ''project = X'' None (Some \<lparr>maxResults_opt = Some 2, startAt_opt = None\<rparr>) ())
     = Inr \<lparr>maxResults = 2, startAt = 0, values = [1::nat, 2], total = 5, isLast = False\<rparr>"
    by (simp add: searchIssues_def post_def resolveSend_def createPaginationParams_def
        DEFAULT_PAGINATION_def createPaginatedResponse_fields)
  have c1: "isLast \<lparr>maxResults = 2, startAt = 0, values = [1::nat, 2], total = 5, isLast = False\<rparr>
     = (startAt \<lparr>maxResults = 2, startAt = 0, values = [1::nat, 2], total = 5, isLast = False\<rparr>
          + int (length (values \<lparr>maxResults = 2, startAt = 0, values = [1::nat, 2], total = 5, isLast = False\<rparr>))
        \<ge> total \<lparr>maxResults = 2, startAt = 0, values = [1::nat, 2], total = 5, isLast = False\<rparr>)"
    by (rule listing_isLast[THEN conjunct1, rule_format, OF h1])
  have h2: "fst (getComments
          (resolveWith \<lparr>comments = [''a''], comments_total = 3, comments_startAt = 2,
             comments_maxResults = 1\<rparr>)
          ''TEST-1'' (Some \<lparr>maxResults_opt = Some 1, startAt_opt = Some 2\<rparr>) ())
     = Inr \<lparr>maxResults = 1, startAt = 2, values = [''a''], total = 3, isLast = True\<rparr>"
    by (simp add: getComments_def get_def resolveWith_def createPaginationParams_def
        DEFAULT_PAGINATION_def createPaginatedResponse_fields)
  have c2: "isLast \<lparr>maxResults = 1, startAt = 2, values = [''a''], total = 3, isLast = True\<rparr>
     = (startAt \<lparr>maxResults = 1, startAt = 2, values = [''a''], total = 3, isLast = True\<rparr>
          + int (length (values \<lparr>maxResults = 1, startAt = 2, values = [''a''], total = 3, isLast = True\<rparr>))
        \<ge> total \<lparr>maxResults = 1, startAt = 2, values = [''a''], total = 3, isLast = True\<rparr>)"
    by (rule listing_isLast[THEN conjunct2, THEN conjunct1, rule_format, OF h2])
  have h3: "fst (getAllProjects (resolveWith [''P1'', ''P2'']) None ())
     = Inr \<lparr>maxResults = 50, startAt = 0, values = [''P1'', ''P2''], total = 2, isLast = True\<rparr>"
    by (simp add: getAllProjects_def get_def resolveWith_def createPaginationParams_def
        DEFAULT_PAGINATION_def createPaginatedResponse_fields)
  have c3: "isLast \<lparr>maxResults = 50, startAt = 0, values = [''P1'', ''P2''], total = 2, isLast = True\<rparr>
     = (startAt \<lparr>maxResults = 50, startAt = 0, values = [''P1'', ''P2''], total = 2, isLast = True\<rparr>
          + int (length (values \<lparr>maxResults = 50, startAt = 0, values = [''P1'', ''P2''], total = 2, isLast = True\<rparr>))
        \<ge> total \<lparr>maxResults = 50, startAt = 0, values = [''P1'', ''P2''], total = 2, isLast = True\<rparr>)"
    by (rule listing_isLast[THEN conjunct2, THEN conjunct2, THEN conjunct1, rule_format, OF h3])
  have h4: "fst (searchUsers (resolveWith [''u1'']) ''john'' None ())
     = Inr \<lparr>maxResults = 50, startAt = 0, values = [''u1''], total = 1, isLast = True\<rparr>"
    by (simp add: searchUsers_def get_def resolveWith_def createPaginationParams_def
        DEFAULT_PAGINATION_def createPaginatedResponse_fields)
  have c4: "isLast \<lparr>maxResults = 50, startAt = 0, values = [''u1''], total = 1, isLast = True\<rparr>
     = (startAt \<lparr>maxResults = 50, startAt = 0, values = [''u1''], total = 1, isLast = True\<rparr>
          + int (length (values \<lparr>maxResults = 50, startAt = 0, values = [''u1''], total = 1, isLast = True\<rparr>))
        \<ge> total \<lparr>maxResults = 50, startAt = 0, values = [''u1''], total = 1, isLast = True\<rparr>)"
    by (rule listing_isLast[THEN conjunct2, THEN conjunct2, THEN conjunct2, THEN conjunct1, rule_format, OF h4])
  have h5: "fst (getAssignableUsers (resolveWith [''u1'', ''u2'', ''u3'']) ''TEST'' None ())
     = Inr \<lparr>maxResults = 50, startAt = 0, values = [''u1'', ''u2'', ''u3''], total = 3,
            isLast = True\<rparr>"
    by (simp add: getAssignableUsers_def get_def resolveWith_def createPaginationParams_def
        DEFAULT_PAGINATION_def createPaginatedResponse_fields)
  have c5: "isLast \<lparr>maxResults = 50, startAt = 0, values = [''u1'', ''u2'', ''u3''], total = 3,
            isLast = True\<rparr>
     = (startAt \<lparr>maxResults = 50, startAt = 0, values = [''u1'', ''u2'', ''u3''], total = 3,
            isLast = True\<rparr>
          + int (length (values \<lparr>maxResults = 50, startAt = 0, values = [''u1'', ''u2'', ''u3''], total = 3,
            isLast = True\<rparr>))
        \<ge> total \<lparr>maxResults = 50, startAt = 0, values = [''u1'', ''u2'', ''u3''], total = 3,
            isLast = True\<rparr>)"
    by (rule listing_isLast[THEN conjunct2, THEN conjunct2, THEN conjunct2, THEN conjunct2, THEN conjunct1, rule_format, OF h5])
  have h6: "fst (searchProjects
          (resolveWith \<lparr>reply_values = [''P1''], reply_total = 4, reply_isLast = False\<rparr>)
          ''P'' None ())
     = Inr \<lparr>maxResults = 50, startAt = 0, values = [''P1''], total = 4, isLast = False\<rparr>"
    by (simp add: searchProjects_def get_def resolveWith_def createPaginationParams_def
        DEFAULT_PAGINATION_def createPaginatedResponse_fields)
  have c6: "(\<exists>cfg reply w'.
         resolveWith \<lparr>reply_values = [''P1''], reply_total = 4, reply_isLast = False\<rparr>
           ''/project/search'' cfg () = (Inr reply, w')
         \<and> isLast \<lparr>maxResults = 50, startAt = 0, values = [''P1''], total = 4, isLast = False\<rparr>
             = reply_isLast reply)"
    by (rule listing_isLast[THEN conjunct2, THEN conjunct2, THEN conjunct2, THEN conjunct2, THEN conjunct2, rule_format, OF h6])
  from h1 c1 h2 c2 h3 c3 h4 c4 h5 c5 h6 c6 show ?thesis by (intro conjI)
qed

text \<open>
  C1 as stated, for all six operations, fails on \<^verbatim>\<open>searchProjects\<close>: an upstream reply
  with one project out of three that calls itself the last page is returned as the last
  page, at offset 0, where \<open>0 + 1 \<ge> 3\<close> is false.
\<close>

theorem searchProjects_isLast_counterexample:
  "fst (searchProjects (resolveWith \<lparr>reply_values = [7::nat], reply_total = 3, reply_isLast = True\<rparr>)
          ''web'' None ())
     = Inr \<lparr>maxResults = 50, startAt = 0, values = [7::nat], total = 3, isLast = True\<rparr>
   \<and> isLast \<lparr>maxResults = 50, startAt = 0, values = [7::nat], total = 3, isLast = True\<rparr>
     \<noteq> (startAt \<lparr>maxResults = 50, startAt = 0, values = [7::nat], total = 3, isLast = True\<rparr>
          + int (length (values \<lparr>maxResults = 50, startAt = 0, values = [7::nat], total = 3, isLast = True\<rparr>))
        \<ge> total \<lparr>maxResults = 50, startAt = 0, values = [7::nat], total = 3, isLast = True\<rparr>)"
  by (simp add: searchProjects_def resolveWith_def get_def createPaginationParams_def
      DEFAULT_PAGINATION_def)

subsection \<open>Endpoints that return a bare array\<close>

text \<open>
  C7. \<^verbatim>\<open>getAllProjects\<close>, \<^verbatim>\<open>searchUsers\<close> and \<^verbatim>\<open>getAssignableUsers\<close> fetch an array
  and no total. The page they return carries that array, its length as the total
  and, whenever the requested offset is not negative (the default 0 included) and
  whatever the page size, \<^verbatim>\<open>isLast\<close> true.
\<close>

theorem bare_array_listing:
  assumes "0 \<le> startAt (createPaginationParams pg)"
  shows
  "(fst (getAllProjects cg3 pg w) = Inr r3 \<longrightarrow>
      (\<exists>cfg w'. cg3 ''/project'' cfg w = (Inr (values r3), w'))
      \<and> total r3 = int (length (values r3)) \<and> isLast r3)
   \<and> (fst (searchUsers cg4 q4 pg w) = Inr r4 \<longrightarrow>
      (\<exists>cfg w'. cg4 ''/user/search'' cfg w = (Inr (values r4), w'))
      \<and> total r4 = int (length (values r4)) \<and> isLast r4)
   \<and> (fst (getAssignableUsers cg5 k5 pg w) = Inr r5 \<longrightarrow>
      (\<exists>cfg w'. cg5 ''/user/assignable/search'' cfg w = (Inr (values r5), w'))
      \<and> total r5 = int (length (values r5)) \<and> isLast r5)"
proof (intro conjI impI)
  assume a: "fst (getAllProjects cg3 pg w) = Inr r3"
  from getAllProjects_Inr[OF a] obtain cfg xs w' where
    c: "cg3 ''/project'' cfg w = (Inr xs, w')" and
    r: "r3 = createPaginatedResponse xs (int (length xs)) (createPaginationParams pg)" by blast
  from r have v: "values r3 = xs" by (simp add: createPaginatedResponse_fields)
  from c v show "\<exists>cfg w'. cg3 ''/project'' cfg w = (Inr (values r3), w')" by blast
  from r show "total r3 = int (length (values r3))" by (simp add: createPaginatedResponse_fields)
  from r assms show "isLast r3" by (simp add: createPaginatedResponse_fields)
next
  assume a: "fst (searchUsers cg4 q4 pg w) = Inr r4"
  from searchUsers_Inr[OF a] obtain cfg xs w' where
    c: "cg4 ''/user/search'' cfg w = (Inr xs, w')" and
    r: "r4 = createPaginatedResponse xs (int (length xs)) (createPaginationParams pg)" by blast
  from r have v: "values r4 = xs" by (simp add: createPaginatedResponse_fields)
  from c v show "\<exists>cfg w'. cg4 ''/user/search'' cfg w = (Inr (values r4), w')" by blast
  from r show "total r4 = int (length (values r4))" by (simp add: createPaginatedResponse_fields)
  from r assms show "isLast r4" by (simp add: createPaginatedResponse_fields)
next
  assume a: "fst (getAssignableUsers cg5 k5 pg w) = Inr r5"
  from getAssignableUsers_Inr[OF a] obtain cfg xs w' where
    c: "cg5 ''/user/assignable/search'' cfg w = (Inr xs, w')" and
    r: "r5 = createPaginatedResponse xs (int (length xs)) (createPaginationParams pg)" by blast
  from r have v: "values r5 = xs" by (simp add: createPaginatedResponse_fields)
  from c v show "\<exists>cfg w'. cg5 ''/user/assignable/search'' cfg w = (Inr (values r5), w')" by blast
  from r show "total r5 = int (length (values r5))" by (simp add: createPaginatedResponse_fields)
  from r assms show "isLast r5" by (simp add: createPaginatedResponse_fields)
qed

text \<open>The three operations at offset 20 with page size 10, on two, one and no items.\<close>

theorem bare_array_listing_witness:
  "0 \<le> startAt (createPaginationParams (Some \<lparr>maxResults_opt = Some 10, startAt_opt = Some 20\<rparr>))
   \<and> fst (getAllProjects (resolveWith [''P1'', ''P2'']) (Some \<lparr>maxResults_opt = Some 10, startAt_opt = Some 20\<rparr>) ())
     = Inr \<lparr>maxResults = 10, startAt = 20, values = [''P1'', ''P2''], total = 2, isLast = True\<rparr>
   \<and> (\<exists>cfg w'. resolveWith [''P1'', ''P2''] ''/project'' cfg () = (Inr (values \<lparr>maxResults = 10, startAt = 20, values = [''P1'', ''P2''], total = 2, isLast = True\<rparr>), w'))
   \<and> total \<lparr>maxResults = 10, startAt = 20, values = [''P1'', ''P2''], total = 2, isLast = True\<rparr>
       = int (length (values \<lparr>maxResults = 10, startAt = 20, values = [''P1'', ''P2''], total = 2, isLast = True\<rparr>))
   \<and> isLast \<lparr>maxResults = 10, startAt = 20, values = [''P1'', ''P2''], total = 2, isLast = True\<rparr>
   \<and> fst (searchUsers (resolveWith [''u1'']) ''john'' (Some \<lparr>maxResults_opt = Some 10, startAt_opt = Some 20\<rparr>) ())
     = Inr \<lparr>maxResults = 10, startAt = 20, values = [''u1''], total = 1, isLast = True\<rparr>
   \<and> (\<exists>cfg w'. resolveWith [''u1''] ''/user/search'' cfg () = (Inr (values \<lparr>maxResults = 10, startAt = 20, values = [''u1''], total = 1, isLast = True\<rparr>), w'))
   \<and> total \<lparr>maxResults = 10, startAt = 20, values = [''u1''], total = 1, isLast = True\<rparr>
       = int (length (values \<lparr>maxResults = 10, startAt = 20, values = [''u1''], total = 1, isLast = True\<rparr>))
   \<and> isLast \<lparr>maxResults = 10, startAt = 20, values = [''u1''], total = 1, isLast = True\<rparr>
   \<and> fst (getAssignableUsers (resolveWith ([]::string list)) ''TEST'' (Some \<lparr>maxResults_opt = Some 10, startAt_opt = Some 20\<rparr>) ())
     = Inr \<lparr>maxResults = 10, startAt = 20, values = ([]::string list), total = 0, isLast = True\<rparr>
   \<and> (\<exists>cfg w'. resolveWith ([]::string list) ''/user/assignable/search'' cfg () = (Inr (values \<lparr>maxResults = 10, startAt = 20, values = ([]::string list), total = 0, isLast = True\<rparr>), w'))
   \<and> total \<lparr>maxResults = 10, startAt = 20, values = ([]::string list), total = 0, isLast = True\<rparr>
       = int (length (values \<lparr>maxResults = 10, startAt = 20, values = ([]::string list), total = 0, isLast = True\<rparr>))
   \<and> isLast \<lparr>maxResults = 10, startAt = 20, values = ([]::string list), total = 0, isLast = True\<rparr>"
proof -
  have h0: "0 \<le> startAt (createPaginationParams (Some \<lparr>maxResults_opt = Some 10, startAt_opt = Some 20\<rparr>))"
    by (simp add: createPaginationParams_def)
  have h1: "fst (getAllProjects (resolveWith [''P1'', ''P2'']) (Some \<lparr>maxResults_opt = Some 10, startAt_opt = Some 20\<rparr>) ())
     = Inr \<lparr>maxResults = 10, startAt = 20, values = [''P1'', ''P2''], total = 2, isLast = True\<rparr>"
    by (simp add: getAllProjects_def get_def resolveWith_def createPaginationParams_def
        createPaginatedResponse_fields)
  have c1: "(\<exists>cfg w'. resolveWith [''P1'', ''P2''] ''/project'' cfg () = (Inr (values \<lparr>maxResults = 10, startAt = 20, values = [''P1'', ''P2''], total = 2, isLast = True\<rparr>), w'))
   \<and> total \<lparr>maxResults = 10, startAt = 20, values = [''P1'', ''P2''], total = 2, isLast = True\<rparr>
       = int (length (values \<lparr>maxResults = 10, startAt = 20, values = [''P1'', ''P2''], total = 2, isLast = True\<rparr>))
   \<and> isLast \<lparr>maxResults = 10, startAt = 20, values = [''P1'', ''P2''], total = 2, isLast = True\<rparr>"
    by (rule bare_array_listing[OF h0, THEN conjunct1, rule_format, OF h1])
  have h2: "fst (searchUsers (resolveWith [''u1'']) ''john'' (Some \<lparr>maxResults_opt = Some 10, startAt_opt = Some 20\<rparr>) ())
     = Inr \<lparr>maxResults = 10, startAt = 20, values = [''u1''], total = 1, isLast = True\<rparr>"
    by (simp add: searchUsers_def get_def resolveWith_def createPaginationParams_def
        createPaginatedResponse_fields)
  have c2: "(\<exists>cfg w'. resolveWith [''u1''] ''/user/search'' cfg () = (Inr (values \<lparr>maxResults = 10, startAt = 20, values = [''u1''], total = 1, isLast = True\<rparr>), w'))
   \<and> total \<lparr>maxResults = 10, startAt = 20, values = [''u1''], total = 1, isLast = True\<rparr>
       = int (length (values \<lparr>maxResults = 10, startAt = 20, values = [''u1''], total = 1, isLast = True\<rparr>))
   \<and> isLast \<lparr>maxResults = 10, startAt = 20, values = [''u1''], total = 1, isLast = True\<rparr>"
    by (rule bare_array_listing[OF h0, THEN conjunct2, THEN conjunct1, rule_format, OF h2])
  have h3: "fst (getAssignableUsers (resolveWith ([]::string list)) ''TEST'' (Some \<lparr>maxResults_opt = Some 10, startAt_opt = Some 20\<rparr>) ())
     = Inr \<lparr>maxResults = 10, startAt = 20, values = ([]::string list), total = 0, isLast = True\<rparr>"
    by (simp add: getAssignableUsers_def get_def resolveWith_def createPaginationParams_def
        createPaginatedResponse_fields)
  have c3: "(\<exists>cfg w'. resolveWith ([]::string list) ''/user/assignable/search'' cfg () = (Inr (values \<lparr>maxResults = 10, startAt = 20, values = ([]::string list), total = 0, isLast = True\<rparr>), w'))
   \<and> total \<lparr>maxResults = 10, startAt = 20, values = ([]::string list), total = 0, isLast = True\<rparr>
       = int (length (values \<lparr>maxResults = 10, startAt = 20, values = ([]::string list), total = 0, isLast = True\<rparr>))
   \<and> isLast \<lparr>maxResults = 10, startAt = 20, values = ([]::string list), total = 0, isLast = True\<rparr>"
    by (rule bare_array_listing[OF h0, THEN conjunct2, THEN conjunct2, rule_format, OF h3])
  from h0 h1 c1 h2 c2 h3 c3 show ?thesis by (intro conjI) simp_all
qed

subsection \<open>The cursor of a returned page comes from the request\<close>

lemma searchIssues_unfold:
  "searchIssues cp j f pg w =
     (case cp ''/search''
             \<lparr>jql = j, request_startAt = startAt (createPaginationParams pg),
              request_maxResults = maxResults (createPaginationParams pg),
              request_fields =
                (case f of
                   Some fs \<Rightarrow> fs
                 | None \<Rightarrow>
                     [''summary'', ''status'', ''assignee'', ''priority'', ''issuetype'',
                      ''created'', ''updated''])\<rparr> None w of
        (Inr reply, w') \<Rightarrow>
          (Inr (createPaginatedResponse (issues reply) (search_total reply)
                  (createPaginationParams pg)), w')
      | (Inl e, w') \<Rightarrow> (Inl (handleApiError e), w'))"
  by (simp add: searchIssues_def Let_def post_def split: prod.splits sum.splits)

lemma getComments_unfold:
  "getComments cg k pg w =
     (case cg (''/issue/'' @ k @ ''/comment'')
             (Some [(''startAt'', QNumber (startAt (createPaginationParams pg))),
                    (''maxResults'', QNumber (maxResults (createPaginationParams pg)))]) w of
        (Inr reply, w') \<Rightarrow>
          (Inr (createPaginatedResponse (comments reply) (comments_total reply)
                  (createPaginationParams pg)), w')
      | (Inl e, w') \<Rightarrow> (Inl (handleApiError e), w'))"
  by (simp add: getComments_def Let_def get_def split: prod.splits sum.splits)

text \<open>
  C9. A page returned by \<^verbatim>\<open>searchIssues\<close> or \<^verbatim>\<open>getComments\<close> has the
  \<^verbatim>\<open>startAt\<close> and \<^verbatim>\<open>maxResults\<close> of the normalised request parameters, which are also
  what the request carries; its items and its total are those of the reply, and its
  \<^verbatim>\<open>isLast\<close> is computed from the offset of the request, the number of items of the
  reply and the total of the reply. Whatever \<^verbatim>\<open>startAt\<close> and \<^verbatim>\<open>maxResults\<close> the
  server reports in its reply makes no difference to the outcome of the operation.
\<close>

theorem search_and_comments_cursor:
  "(fst (searchIssues cp j f pg w) = Inr r1 \<longrightarrow>
      startAt r1 = startAt (createPaginationParams pg)
      \<and> maxResults r1 = maxResults (createPaginationParams pg)
      \<and> (\<exists>body reply w'. cp ''/search'' body None w = (Inr reply, w')
            \<and> request_startAt body = startAt (createPaginationParams pg)
            \<and> request_maxResults body = maxResults (createPaginationParams pg)
            \<and> values r1 = issues reply \<and> total r1 = search_total reply
            \<and> isLast r1 = (startAt (createPaginationParams pg) + int (length (issues reply))
                            \<ge> search_total reply)))
   \<and> searchIssues (searchReporting a b cp) j f pg w = searchIssues cp j f pg w
   \<and> (fst (getComments cg k pg w) = Inr r2 \<longrightarrow>
      startAt r2 = startAt (createPaginationParams pg)
      \<and> maxResults r2 = maxResults (createPaginationParams pg)
      \<and> (\<exists>cfg reply w'. cg (''/issue/'' @ k @ ''/comment'') cfg w = (Inr reply, w')
            \<and> cfg = Some [(''startAt'', QNumber (startAt (createPaginationParams pg))),
                           (''maxResults'', QNumber (maxResults (createPaginationParams pg)))]
            \<and> values r2 = comments reply \<and> total r2 = comments_total reply
            \<and> isLast r2 = (startAt (createPaginationParams pg) + int (length (comments reply))
                            \<ge> comments_total reply)))
   \<and> getComments (commentsReporting a b cg) k pg w = getComments cg k pg w"
proof (intro conjI impI)
  assume h: "fst (searchIssues cp j f pg w) = Inr r1"
  from searchIssues_Inr[OF h] obtain body reply w' where
    c: "cp ''/search'' body None w = (Inr reply, w')"
    and b1: "request_startAt body = startAt (createPaginationParams pg)"
    and b2: "request_maxResults body = maxResults (createPaginationParams pg)"
    and r: "r1 = createPaginatedResponse (issues reply) (search_total reply) (createPaginationParams pg)"
    by blast
  from r show "startAt r1 = startAt (createPaginationParams pg)"
    by (simp add: createPaginatedResponse_fields)
  from r show "maxResults r1 = maxResults (createPaginationParams pg)"
    by (simp add: createPaginatedResponse_fields)
  from r have "values r1 = issues reply \<and> total r1 = search_total reply
            \<and> isLast r1 = (startAt (createPaginationParams pg) + int (length (issues reply))
                            \<ge> search_total reply)"
    by (simp add: createPaginatedResponse_fields)
  with c b1 b2 show "\<exists>body reply w'. cp ''/search'' body None w = (Inr reply, w')
            \<and> request_startAt body = startAt (createPaginationParams pg)
            \<and> request_maxResults body = maxResults (createPaginationParams pg)
            \<and> values r1 = issues reply \<and> total r1 = search_total reply
            \<and> isLast r1 = (startAt (createPaginationParams pg) + int (length (issues reply))
                            \<ge> search_total reply)" by blast
next
  show "searchIssues (searchReporting a b cp) j f pg w = searchIssues cp j f pg w"
    by (simp add: searchIssues_unfold searchReporting_def split: prod.splits sum.splits)
next
  assume h: "fst (getComments cg k pg w) = Inr r2"
  define cfg where "cfg = Some [(''startAt'', QNumber (startAt (createPaginationParams pg))),
                           (''maxResults'', QNumber (maxResults (createPaginationParams pg)))]"
  obtain res w' where c: "cg (''/issue/'' @ k @ ''/comment'') cfg w = (res, w')"
    by (cases "cg (''/issue/'' @ k @ ''/comment'') cfg w")
  from h c obtain reply where res: "res = Inr reply"
    and r: "r2 = createPaginatedResponse (comments reply) (comments_total reply) (createPaginationParams pg)"
    by (cases res) (auto simp: getComments_unfold cfg_def)
  from r show "startAt r2 = startAt (createPaginationParams pg)"
    by (simp add: createPaginatedResponse_fields)
  from r show "maxResults r2 = maxResults (createPaginationParams pg)"
    by (simp add: createPaginatedResponse_fields)
  from r have "values r2 = comments reply \<and> total r2 = comments_total reply
            \<and> isLast r2 = (startAt (createPaginationParams pg) + int (length (comments reply))
                            \<ge> comments_total reply)"
    by (simp add: createPaginatedResponse_fields)
  with c res cfg_def show "\<exists>cfg reply w'. cg (''/issue/'' @ k @ ''/comment'') cfg w = (Inr reply, w')
            \<and> cfg = Some [(''startAt'', QNumber (startAt (createPaginationParams pg))),
                           (''maxResults'', QNumber (maxResults (createPaginationParams pg)))]
            \<and> values r2 = comments reply \<and> total r2 = comments_total reply
            \<and> isLast r2 = (startAt (createPaginationParams pg) + int (length (comments reply))
                            \<ge> comments_total reply)" by blast
next
  show "getComments (commentsReporting a b cg) k pg w = getComments cg k pg w"
    by (simp add: getComments_unfold commentsReporting_def split: prod.splits sum.splits)
qed

text \<open>
  A request for two results from offset 5, answered by a server that reports another
  offset and page size.
\<close>

theorem search_and_comments_cursor_witness:
  "fst (searchIssues (resolveSend \<lparr>issues = [1::nat, 2], search_total = 9, search_startAt = 99,
          search_maxResults = 100\<rparr>)
        ''project = X'' None (Some \<lparr>maxResults_opt = Some 2, startAt_opt = Some 5\<rparr>) ())
     = Inr \<lparr>maxResults = 2, startAt = 5, values = [1::nat, 2], total = 9, isLast = False\<rparr>
   \<and> startAt \<lparr>maxResults = 2, startAt = 5, values = [1::nat, 2], total = 9, isLast = False\<rparr> = startAt (createPaginationParams (Some \<lparr>maxResults_opt = Some 2, startAt_opt = Some 5\<rparr>))
   \<and> maxResults \<lparr>maxResults = 2, startAt = 5, values = [1::nat, 2], total = 9, isLast = False\<rparr> = maxResults (createPaginationParams (Some \<lparr>maxResults_opt = Some 2, startAt_opt = Some 5\<rparr>))
   \<and> (\<exists>(body::SearchRequest) reply w'. (resolveSend \<lparr>issues = [1::nat, 2], search_total = 9, search_startAt = 99,
          search_maxResults = 100\<rparr>) ''/search'' body None () = (Inr reply, w')
         \<and> request_startAt body = startAt (createPaginationParams (Some \<lparr>maxResults_opt = Some 2, startAt_opt = Some 5\<rparr>))
         \<and> request_maxResults body = maxResults (createPaginationParams (Some \<lparr>maxResults_opt = Some 2, startAt_opt = Some 5\<rparr>))
         \<and> values \<lparr>maxResults = 2, startAt = 5, values = [1::nat, 2], total = 9, isLast = False\<rparr> = issues reply
         \<and> total \<lparr>maxResults = 2, startAt = 5, values = [1::nat, 2], total = 9, isLast = False\<rparr> = search_total reply
         \<and> isLast \<lparr>maxResults = 2, startAt = 5, values = [1::nat, 2], total = 9, isLast = False\<rparr>
             = (startAt (createPaginationParams (Some \<lparr>maxResults_opt = Some 2, startAt_opt = Some 5\<rparr>)) + int (length (issues reply))
                  \<ge> search_total reply))
   \<and> fst (getComments (resolveWith \<lparr>comments = [''c1''], comments_total = 6, comments_startAt = 0,
          comments_maxResults = 50\<rparr>)
        ''TEST-1'' (Some \<lparr>maxResults_opt = Some 2, startAt_opt = Some 5\<rparr>) ())
     = Inr \<lparr>maxResults = 2, startAt = 5, values = [''c1''], total = 6, isLast = True\<rparr>
   \<and> startAt \<lparr>maxResults = 2, startAt = 5, values = [''c1''], total = 6, isLast = True\<rparr> = startAt (createPaginationParams (Some \<lparr>maxResults_opt = Some 2, startAt_opt = Some 5\<rparr>))
   \<and> maxResults \<lparr>maxResults = 2, startAt = 5, values = [''c1''], total = 6, isLast = True\<rparr> = maxResults (createPaginationParams (Some \<lparr>maxResults_opt = Some 2, startAt_opt = Some 5\<rparr>))
   \<and> (\<exists>cfg reply w'. (resolveWith \<lparr>comments = [''c1''], comments_total = 6, comments_startAt = 0,
          comments_maxResults = 50\<rparr>) (''/issue/'' @ ''TEST-1'' @ ''/comment'') cfg () = (Inr reply, w')
         \<and> cfg = Some [(''startAt'', QNumber (startAt (createPaginationParams (Some \<lparr>maxResults_opt = Some 2, startAt_opt = Some 5\<rparr>)))),
                        (''maxResults'', QNumber (maxResults (createPaginationParams (Some \<lparr>maxResults_opt = Some 2, startAt_opt = Some 5\<rparr>))))]
         \<and> values \<lparr>maxResults = 2, startAt = 5, values = [''c1''], total = 6, isLast = True\<rparr> = comments reply
         \<and> total \<lparr>maxResults = 2, startAt = 5, values = [''c1''], total = 6, isLast = True\<rparr> = comments_total reply
         \<and> isLast \<lparr>maxResults = 2, startAt = 5, values = [''c1''], total = 6, isLast = True\<rparr>
             = (startAt (createPaginationParams (Some \<lparr>maxResults_opt = Some 2, startAt_opt = Some 5\<rparr>)) + int (length (comments reply))
                  \<ge> comments_total reply))"
proof -
  have h1: "fst (searchIssues (resolveSend \<lparr>issues = [1::nat, 2], search_total = 9, search_startAt = 99,
          search_maxResults = 100\<rparr>)
        ''project = X'' None (Some \<lparr>maxResults_opt = Some 2, startAt_opt = Some 5\<rparr>) ())
     = Inr \<lparr>maxResults = 2, startAt = 5, values = [1::nat, 2], total = 9, isLast = False\<rparr>"
    by (simp add: searchIssues_def post_def resolveSend_def createPaginationParams_def
        createPaginatedResponse_fields)
  have c1: "startAt \<lparr>maxResults = 2, startAt = 5, values = [1::nat, 2], total = 9, isLast = False\<rparr> = startAt (createPaginationParams (Some \<lparr>maxResults_opt = Some 2, startAt_opt = Some 5\<rparr>))
   \<and> maxResults \<lparr>maxResults = 2, startAt = 5, values = [1::nat, 2], total = 9, isLast = False\<rparr> = maxResults (createPaginationParams (Some \<lparr>maxResults_opt = Some 2, startAt_opt = Some 5\<rparr>))
   \<and> (\<exists>(body::SearchRequest) reply w'. (resolveSend \<lparr>issues = [1::nat, 2], search_total = 9, search_startAt = 99,
          search_maxResults = 100\<rparr>) ''/search'' body None () = (Inr reply, w')
         \<and> request_startAt body = startAt (createPaginationParams (Some \<lparr>maxResults_opt = Some 2, startAt_opt = Some 5\<rparr>))
         \<and> request_maxResults body = maxResults (createPaginationParams (Some \<lparr>maxResults_opt = Some 2, startAt_opt = Some 5\<rparr>))
         \<and> values \<lparr>maxResults = 2, startAt = 5, values = [1::nat, 2], total = 9, isLast = False\<rparr> = issues reply
         \<and> total \<lparr>maxResults = 2, startAt = 5, values = [1::nat, 2], total = 9, isLast = False\<rparr> = search_total reply
         \<and> isLast \<lparr>maxResults = 2, startAt = 5, values = [1::nat, 2], total = 9, isLast = False\<rparr>
             = (startAt (createPaginationParams (Some \<lparr>maxResults_opt = Some 2, startAt_opt = Some 5\<rparr>)) + int (length (issues reply))
                  \<ge> search_total reply))"
    by (rule search_and_comments_cursor[THEN conjunct1, rule_format, OF h1])
  have h2: "fst (getComments (resolveWith \<lparr>comments = [''c1''], comments_total = 6, comments_startAt = 0,
          comments_maxResults = 50\<rparr>)
        ''TEST-1'' (Some \<lparr>maxResults_opt = Some 2, startAt_opt = Some 5\<rparr>) ())
     = Inr \<lparr>maxResults = 2, startAt = 5, values = [''c1''], total = 6, isLast = True\<rparr>"
    by (simp add: getComments_def get_def resolveWith_def createPaginationParams_def
        createPaginatedResponse_fields)
  have c2: "startAt \<lparr>maxResults = 2, startAt = 5, values = [''c1''], total = 6, isLast = True\<rparr> = startAt (createPaginationParams (Some \<lparr>maxResults_opt = Some 2, startAt_opt = Some 5\<rparr>))
   \<and> maxResults \<lparr>maxResults = 2, startAt = 5, values = [''c1''], total = 6, isLast = True\<rparr> = maxResults (createPaginationParams (Some \<lparr>maxResults_opt = Some 2, startAt_opt = Some 5\<rparr>))
   \<and> (\<exists>cfg reply w'. (resolveWith \<lparr>comments = [''c1''], comments_total = 6, comments_startAt = 0,
          comments_maxResults = 50\<rparr>) (''/issue/'' @ ''TEST-1'' @ ''/comment'') cfg () = (Inr reply, w')
         \<and> cfg = Some [(''startAt'', QNumber (startAt (createPaginationParams (Some \<lparr>maxResults_opt = Some 2, startAt_opt = Some 5\<rparr>)))),
                        (''maxResults'', QNumber (maxResults (createPaginationParams (Some \<lparr>maxResults_opt = Some 2, startAt_opt = Some 5\<rparr>))))]
         \<and> values \<lparr>maxResults = 2, startAt = 5, values = [''c1''], total = 6, isLast = True\<rparr> = comments reply
         \<and> total \<lparr>maxResults = 2, startAt = 5, values = [''c1''], total = 6, isLast = True\<rparr> = comments_total reply
         \<and> isLast \<lparr>maxResults = 2, startAt = 5, values = [''c1''], total = 6, isLast = True\<rparr>
             = (startAt (createPaginationParams (Some \<lparr>maxResults_opt = Some 2, startAt_opt = Some 5\<rparr>)) + int (length (comments reply))
                  \<ge> comments_total reply))"
    by (rule search_and_comments_cursor[THEN conjunct2, THEN conjunct2, THEN conjunct1,
          rule_format, OF h2])
  from h1 c1 h2 c2 show ?thesis by blast
qed

subsection \<open>Assigning and unassigning an issue\<close>

lemma put_unit:
  "(case put cp url body cfg w of (Inl e, w') \<Rightarrow> (Inl e, w') | (Inr u, w') \<Rightarrow> (Inr (), w'))
     = put cp url body cfg w"
  by (simp split: prod.splits sum.splits)

text \<open>
  C10. \<^verbatim>\<open>assignIssue\<close> is one \<^verbatim>\<open>PUT\<close> to the assignee of the issue. Its body
  carries the account id when that is a non-empty string; it carries \<^verbatim>\<open>null\<close> when
  the argument is \<^verbatim>\<open>null\<close> and also when it is the empty string, which therefore
  unassigns the issue.
\<close>

theorem assignIssue_body:
  "(a \<noteq> [] \<longrightarrow>
      assignIssue cp k (Some a) w
        = put cp (''/issue/'' @ k @ ''/assignee'') \<lparr>accountId = Some a\<rparr> None w)
   \<and> assignIssue cp k None w
        = put cp (''/issue/'' @ k @ ''/assignee'') \<lparr>accountId = None\<rparr> None w
   \<and> assignIssue cp k (Some []) w
        = put cp (''/issue/'' @ k @ ''/assignee'') \<lparr>accountId = None\<rparr> None w"
  by (simp add: assignIssue_def truthy_def Let_def put_unit)

text \<open>The three cases on a transport that records what it is sent.\<close>

theorem assignIssue_body_witness:
  "''user123'' \<noteq> []
   \<and> assignIssue recordSend ''TEST-1'' (Some ''user123'') []
       = put recordSend ''/issue/TEST-1/assignee'' \<lparr>accountId = Some ''user123''\<rparr> None []
   \<and> assignIssue recordSend ''TEST-1'' (Some ''user123'') []
       = (Inr (), [(''/issue/TEST-1/assignee'', \<lparr>accountId = Some ''user123''\<rparr>)])
   \<and> assignIssue recordSend ''TEST-1'' None []
       = (Inr (), [(''/issue/TEST-1/assignee'', \<lparr>accountId = None\<rparr>)])
   \<and> assignIssue recordSend ''TEST-1'' (Some []) []
       = (Inr (), [(''/issue/TEST-1/assignee'', \<lparr>accountId = None\<rparr>)])"
proof -
  have n: "''user123'' \<noteq> []" by simp
  note t = assignIssue_body[where cp = recordSend and k = "''TEST-1''" and w = "[]"
      and a = "''user123''"]
  have p1: "put recordSend ''/issue/TEST-1/assignee'' \<lparr>accountId = Some ''user123''\<rparr> None []
      = (Inr (), [(''/issue/TEST-1/assignee'', \<lparr>accountId = Some ''user123''\<rparr>)])"
    by (simp add: put_def recordSend_def)
  have p2: "put recordSend ''/issue/TEST-1/assignee'' \<lparr>accountId = None\<rparr> None []
      = (Inr (), [(''/issue/TEST-1/assignee'', \<lparr>accountId = None\<rparr>)])"
    by (simp add: put_def recordSend_def)
  from n t p1 p2 show ?thesis by simp
qed

subsection \<open>Error normalisation\<close>

lemma handleApiError_body:
  "axios_response ax = Some r \<Longrightarrow> response_data r = Some d \<Longrightarrow>
     handleApiError (AxiosFailure ax) =
       \<lparr>message =
          (case body_errorMessages d of
             Some (m # ms) \<Rightarrow> m
           | _ \<Rightarrow> (case body_errors d of
                     Some ((k, v) # es) \<Rightarrow> k @ '': '' @ v
                   | _ \<Rightarrow> axios_message ax)),
        status = (if response_status r = 0 then 500 else response_status r),
        errors = (case body_errors d of None \<Rightarrow> [] | Some es \<Rightarrow> es),
        errorMessages = (case body_errorMessages d of None \<Rightarrow> [] | Some ms \<Rightarrow> ms)\<rparr>"
  by (simp add: handleApiError_def newJiraError_def Let_def split: option.splits list.splits)

lemma handleApiError_no_body:
  "axios_response ax = None \<or> (axios_response ax = Some r \<and> response_data r = None) \<Longrightarrow>
     handleApiError (AxiosFailure ax) =
       \<lparr>message = axios_message ax,
        status = (case axios_response ax of
                    None \<Rightarrow> 500
                  | Some r \<Rightarrow> if response_status r = 0 then 500 else response_status r),
        errors = [], errorMessages = []\<rparr>"
  by (auto simp: handleApiError_def newJiraError_def Let_def split: option.splits)

text \<open>
  C5. \<^verbatim>\<open>handleApiError\<close> gives a \<^verbatim>\<open>JiraError\<close> for every failure value; the two
  indexed reads it makes are guarded by the lengths, so no case is left undefined.
  For an Axios error with a body: the summary is the first of the body's
  \<^verbatim>\<open>errorMessages\<close> when there is one; else \<^verbatim>\<open>field: message\<close> from the first entry of
  the body's \<^verbatim>\<open>errors\<close> when there is one; else the message of the Axios error; the
  list and the map of the body are kept on the result (empty when missing). For an
  Axios error without a body the summary is its message, with no messages and no
  field errors. The status is the one of the response, and 500 when there is no
  response (or when the status is the falsy 0, which no HTTP response carries). Any
  other \<^verbatim>\<open>Error\<close> gives its message with status 500; any other value gives
  \<^verbatim>\<open>Unknown error occurred\<close> with status 500. The last conjunct is the example of the
  specification: status 404 and the body with the single message.
\<close>

theorem handleApiError_spec:
  "(axios_response ax = Some r \<and> response_data r = Some d
      \<and> body_errorMessages d = Some (m # ms) \<longrightarrow>
        message (handleApiError (AxiosFailure ax)) = m
        \<and> errorMessages (handleApiError (AxiosFailure ax)) = m # ms
        \<and> errors (handleApiError (AxiosFailure ax))
            = (case body_errors d of None \<Rightarrow> [] | Some es \<Rightarrow> es))
   \<and> (axios_response ax = Some r \<and> response_data r = Some d
      \<and> (body_errorMessages d = None \<or> body_errorMessages d = Some [])
      \<and> body_errors d = Some ((k, v) # es) \<longrightarrow>
        message (handleApiError (AxiosFailure ax)) = k @ '': '' @ v
        \<and> errorMessages (handleApiError (AxiosFailure ax)) = []
        \<and> errors (handleApiError (AxiosFailure ax)) = (k, v) # es)
   \<and> (axios_response ax = Some r \<and> response_data r = Some d
      \<and> (body_errorMessages d = None \<or> body_errorMessages d = Some [])
      \<and> (body_errors d = None \<or> body_errors d = Some []) \<longrightarrow>
        message (handleApiError (AxiosFailure ax)) = axios_message ax
        \<and> errorMessages (handleApiError (AxiosFailure ax)) = []
        \<and> errors (handleApiError (AxiosFailure ax)) = [])
   \<and> (axios_response ax = None \<or> (axios_response ax = Some r \<and> response_data r = None) \<longrightarrow>
        message (handleApiError (AxiosFailure ax)) = axios_message ax
        \<and> errorMessages (handleApiError (AxiosFailure ax)) = []
        \<and> errors (handleApiError (AxiosFailure ax)) = [])
   \<and> (axios_response ax = Some r \<longrightarrow>
        status (handleApiError (AxiosFailure ax))
          = (if response_status r = 0 then 500 else response_status r))
   \<and> (axios_response ax = None \<longrightarrow> status (handleApiError (AxiosFailure ax)) = 500)
   \<and> handleApiError (ErrorObject msg)
        = \<lparr>message = msg, status = 500, errors = [], errorMessages = []\<rparr>
   \<and> handleApiError OtherValue
        = \<lparr>message = ''Unknown error occurred'', status = 500, errors = [], errorMessages = []\<rparr>
   \<and> handleApiError
        (AxiosFailure
          \<lparr>axios_message = msg,
           axios_response =
             Some \<lparr>response_status = 404,
                   response_data =
                     Some \<lparr>body_errorMessages = Some [''Issue does not exist''],
                           body_errors = Some []\<rparr>\<rparr>\<rparr>)
        = \<lparr>message = ''Issue does not exist'', status = 404, errors = [],
           errorMessages = [''Issue does not exist'']\<rparr>"
proof (intro conjI impI)
  assume "axios_response ax = Some r \<and> response_data r = Some d
      \<and> body_errorMessages d = Some (m # ms)"
  then have a: "axios_response ax = Some r" "response_data r = Some d"
    and b: "body_errorMessages d = Some (m # ms)" by simp_all
  from b show "message (handleApiError (AxiosFailure ax)) = m"
    by (simp add: handleApiError_body[OF a])
  from b show "errorMessages (handleApiError (AxiosFailure ax)) = m # ms"
    by (simp add: handleApiError_body[OF a])
  show "errors (handleApiError (AxiosFailure ax))
            = (case body_errors d of None \<Rightarrow> [] | Some es \<Rightarrow> es)"
    by (simp add: handleApiError_body[OF a])
next
  assume "axios_response ax = Some r \<and> response_data r = Some d
      \<and> (body_errorMessages d = None \<or> body_errorMessages d = Some [])
      \<and> body_errors d = Some ((k, v) # es)"
  then have a: "axios_response ax = Some r" "response_data r = Some d"
    and b: "body_errorMessages d = None \<or> body_errorMessages d = Some []"
    and c: "body_errors d = Some ((k, v) # es)" by simp_all
  from b c show "message (handleApiError (AxiosFailure ax)) = k @ '': '' @ v"
    by (auto simp: handleApiError_body[OF a])
  from b show "errorMessages (handleApiError (AxiosFailure ax)) = []"
    by (auto simp: handleApiError_body[OF a])
  from c show "errors (handleApiError (AxiosFailure ax)) = (k, v) # es"
    by (simp add: handleApiError_body[OF a])
next
  assume "axios_response ax = Some r \<and> response_data r = Some d
      \<and> (body_errorMessages d = None \<or> body_errorMessages d = Some [])
      \<and> (body_errors d = None \<or> body_errors d = Some [])"
  then have a: "axios_response ax = Some r" "response_data r = Some d"
    and b: "body_errorMessages d = None \<or> body_errorMessages d = Some []"
    and c: "body_errors d = None \<or> body_errors d = Some []" by simp_all
  from b c show "message (handleApiError (AxiosFailure ax)) = axios_message ax"
    by (auto simp: handleApiError_body[OF a])
  from b show "errorMessages (handleApiError (AxiosFailure ax)) = []"
    by (auto simp: handleApiError_body[OF a])
  from c show "errors (handleApiError (AxiosFailure ax)) = []"
    by (auto simp: handleApiError_body[OF a])
next
  assume n: "axios_response ax = None \<or> (axios_response ax = Some r \<and> response_data r = None)"
  show "message (handleApiError (AxiosFailure ax)) = axios_message ax"
    by (simp add: handleApiError_no_body[OF n])
  show "errorMessages (handleApiError (AxiosFailure ax)) = []"
    by (simp add: handleApiError_no_body[OF n])
  show "errors (handleApiError (AxiosFailure ax)) = []"
    by (simp add: handleApiError_no_body[OF n])
next
  assume "axios_response ax = Some r"
  then show "status (handleApiError (AxiosFailure ax))
          = (if response_status r = 0 then 500 else response_status r)"
    by (simp add: handleApiError_def newJiraError_def Let_def split: option.splits)
next
  assume "axios_response ax = None"
  then show "status (handleApiError (AxiosFailure ax)) = 500"
    by (simp add: handleApiError_def newJiraError_def)
next
  show "handleApiError (ErrorObject msg)
        = \<lparr>message = msg, status = 500, errors = [], errorMessages = []\<rparr>"
    by (simp add: handleApiError_def newJiraError_def)
next
  show "handleApiError OtherValue
        = \<lparr>message = ''Unknown error occurred'', status = 500, errors = [], errorMessages = []\<rparr>"
    by (simp add: handleApiError_def newJiraError_def)
next
  show "handleApiError
        (AxiosFailure
          \<lparr>axios_message = msg,
           axios_response =
             Some \<lparr>response_status = 404,
                   response_data =
                     Some \<lparr>body_errorMessages = Some [''Issue does not exist''],
                           body_errors = Some []\<rparr>\<rparr>\<rparr>)
        = \<lparr>message = ''Issue does not exist'', status = 404, errors = [],
           errorMessages = [''Issue does not exist'']\<rparr>"
    by (simp add: handleApiError_def newJiraError_def)
qed

text \<open>
  A 404 with a message, a 400 with a field error only, a 502 whose body has neither
  property, and a failure without a response.
\<close>

theorem handleApiError_spec_witness:
  "(axios_response
        \<lparr>axios_message = ''Request failed with status code 404'', axios_response = Some
         \<lparr>response_status = 404, response_data = Some \<lparr>body_errorMessages = Some [''Issue does not exist''], body_errors = Some []\<rparr>\<rparr>\<rparr>
      = Some \<lparr>response_status = 404, response_data = Some \<lparr>body_errorMessages = Some [''Issue does not exist''], body_errors = Some []\<rparr>\<rparr>
    \<and> response_data \<lparr>response_status = 404, response_data = Some \<lparr>body_errorMessages = Some [''Issue does not exist''], body_errors = Some []\<rparr>\<rparr>
      = Some \<lparr>body_errorMessages = Some [''Issue does not exist''], body_errors = Some []\<rparr>
    \<and> body_errorMessages \<lparr>body_errorMessages = Some [''Issue does not exist''], body_errors = Some []\<rparr>
      = Some (''Issue does not exist'' # []))
   \<and> handleApiError
        (AxiosFailure
          \<lparr>axios_message = ''Request failed with status code 404'', axios_response = Some
         \<lparr>response_status = 404, response_data = Some \<lparr>body_errorMessages = Some [''Issue does not exist''], body_errors = Some []\<rparr>\<rparr>\<rparr>)
      = \<lparr>message = ''Issue does not exist'', status = 404, errors = [],
          errorMessages = [''Issue does not exist'']\<rparr>
   \<and> (axios_response
        \<lparr>axios_message = ''Request failed with status code 400'', axios_response = Some
         \<lparr>response_status = 400, response_data = Some
         \<lparr>body_errorMessages = Some [],
           body_errors = Some [(''summary'', ''Summary is required'')]\<rparr>\<rparr>\<rparr>
      = Some \<lparr>response_status = 400, response_data = Some
         \<lparr>body_errorMessages = Some [],
           body_errors = Some [(''summary'', ''Summary is required'')]\<rparr>\<rparr>
    \<and> response_data \<lparr>response_status = 400, response_data = Some
         \<lparr>body_errorMessages = Some [],
           body_errors = Some [(''summary'', ''Summary is required'')]\<rparr>\<rparr>
      = Some \<lparr>body_errorMessages = Some [],
           body_errors = Some [(''summary'', ''Summary is required'')]\<rparr>
    \<and> (body_errorMessages \<lparr>body_errorMessages = Some [],
           body_errors = Some [(''summary'', ''Summary is required'')]\<rparr> = None
       \<or> body_errorMessages \<lparr>body_errorMessages = Some [],
           body_errors = Some [(''summary'', ''Summary is required'')]\<rparr> = Some [])
    \<and> body_errors \<lparr>body_errorMessages = Some [],
           body_errors = Some [(''summary'', ''Summary is required'')]\<rparr>
      = Some ((''summary'', ''Summary is required'') # []))
   \<and> handleApiError
        (AxiosFailure
          \<lparr>axios_message = ''Request failed with status code 400'', axios_response = Some
         \<lparr>response_status = 400, response_data = Some
         \<lparr>body_errorMessages = Some [],
           body_errors = Some [(''summary'', ''Summary is required'')]\<rparr>\<rparr>\<rparr>)
      = \<lparr>message = ''summary: Summary is required'', status = 400, errors = [(''summary'', ''Summary is required'')],
          errorMessages = []\<rparr>
   \<and> (axios_response
        \<lparr>axios_message = ''Request failed with status code 502'', axios_response = Some
         \<lparr>response_status = 502, response_data = Some \<lparr>body_errorMessages = None, body_errors = None\<rparr>\<rparr>\<rparr>
      = Some \<lparr>response_status = 502, response_data = Some \<lparr>body_errorMessages = None, body_errors = None\<rparr>\<rparr>
    \<and> response_data \<lparr>response_status = 502, response_data = Some \<lparr>body_errorMessages = None, body_errors = None\<rparr>\<rparr>
      = Some \<lparr>body_errorMessages = None, body_errors = None\<rparr>
    \<and> (body_errorMessages \<lparr>body_errorMessages = None, body_errors = None\<rparr> = None
       \<or> body_errorMessages \<lparr>body_errorMessages = None, body_errors = None\<rparr> = Some [])
    \<and> (body_errors \<lparr>body_errorMessages = None, body_errors = None\<rparr> = None
       \<or> body_errors \<lparr>body_errorMessages = None, body_errors = None\<rparr> = Some []))
   \<and> handleApiError
        (AxiosFailure
          \<lparr>axios_message = ''Request failed with status code 502'', axios_response = Some
         \<lparr>response_status = 502, response_data = Some \<lparr>body_errorMessages = None, body_errors = None\<rparr>\<rparr>\<rparr>)
      = \<lparr>message = ''Request failed with status code 502'', status = 502, errors = [],
          errorMessages = []\<rparr>
   \<and> axios_response \<lparr>axios_message = ''Network Error'', axios_response = None\<rparr> = None
   \<and> handleApiError
        (AxiosFailure
          \<lparr>axios_message = ''Network Error'', axios_response = None\<rparr>)
      = \<lparr>message = ''Network Error'', status = 500, errors = [],
          errorMessages = []\<rparr>"
proof -
  have h1: "axios_response
        \<lparr>axios_message = ''Request failed with status code 404'', axios_response = Some
         \<lparr>response_status = 404, response_data = Some \<lparr>body_errorMessages = Some [''Issue does not exist''], body_errors = Some []\<rparr>\<rparr>\<rparr>
      = Some \<lparr>response_status = 404, response_data = Some \<lparr>body_errorMessages = Some [''Issue does not exist''], body_errors = Some []\<rparr>\<rparr>
    \<and> response_data \<lparr>response_status = 404, response_data = Some \<lparr>body_errorMessages = Some [''Issue does not exist''], body_errors = Some []\<rparr>\<rparr>
      = Some \<lparr>body_errorMessages = Some [''Issue does not exist''], body_errors = Some []\<rparr>
    \<and> body_errorMessages \<lparr>body_errorMessages = Some [''Issue does not exist''], body_errors = Some []\<rparr>
      = Some (''Issue does not exist'' # [])"
    by simp
  have s1: "axios_response
        \<lparr>axios_message = ''Request failed with status code 404'', axios_response = Some
         \<lparr>response_status = 404, response_data = Some \<lparr>body_errorMessages = Some [''Issue does not exist''], body_errors = Some []\<rparr>\<rparr>\<rparr>
      = Some \<lparr>response_status = 404, response_data = Some \<lparr>body_errorMessages = Some [''Issue does not exist''], body_errors = Some []\<rparr>\<rparr>"
    by simp
  have r1: "handleApiError
        (AxiosFailure
          \<lparr>axios_message = ''Request failed with status code 404'', axios_response = Some
         \<lparr>response_status = 404, response_data = Some \<lparr>body_errorMessages = Some [''Issue does not exist''], body_errors = Some []\<rparr>\<rparr>\<rparr>)
      = \<lparr>message = ''Issue does not exist'', status = 404, errors = [],
          errorMessages = [''Issue does not exist'']\<rparr>"
    using handleApiError_spec[THEN conjunct1, rule_format, OF h1]
      handleApiError_spec[THEN conjunct2, THEN conjunct2, THEN conjunct2, THEN conjunct2, THEN conjunct1, rule_format, OF s1]
    by (intro JiraError.equality) simp_all
  have h2: "axios_response
        \<lparr>axios_message = ''Request failed with status code 400'', axios_response = Some
         \<lparr>response_status = 400, response_data = Some
         \<lparr>body_errorMessages = Some [],
           body_errors = Some [(''summary'', ''Summary is required'')]\<rparr>\<rparr>\<rparr>
      = Some \<lparr>response_status = 400, response_data = Some
         \<lparr>body_errorMessages = Some [],
           body_errors = Some [(''summary'', ''Summary is required'')]\<rparr>\<rparr>
    \<and> response_data \<lparr>response_status = 400, response_data = Some
         \<lparr>body_errorMessages = Some [],
           body_errors = Some [(''summary'', ''Summary is required'')]\<rparr>\<rparr>
      = Some \<lparr>body_errorMessages = Some [],
           body_errors = Some [(''summary'', ''Summary is required'')]\<rparr>
    \<and> (body_errorMessages \<lparr>body_errorMessages = Some [],
           body_errors = Some [(''summary'', ''Summary is required'')]\<rparr> = None
       \<or> body_errorMessages \<lparr>body_errorMessages = Some [],
           body_errors = Some [(''summary'', ''Summary is required'')]\<rparr> = Some [])
    \<and> body_errors \<lparr>body_errorMessages = Some [],
           body_errors = Some [(''summary'', ''Summary is required'')]\<rparr>
      = Some ((''summary'', ''Summary is required'') # [])"
    by simp
  have s2: "axios_response
        \<lparr>axios_message = ''Request failed with status code 400'', axios_response = Some
         \<lparr>response_status = 400, response_data = Some
         \<lparr>body_errorMessages = Some [],
           body_errors = Some [(''summary'', ''Summary is required'')]\<rparr>\<rparr>\<rparr>
      = Some \<lparr>response_status = 400, response_data = Some
         \<lparr>body_errorMessages = Some [],
           body_errors = Some [(''summary'', ''Summary is required'')]\<rparr>\<rparr>"
    by simp
  have r2: "handleApiError
        (AxiosFailure
          \<lparr>axios_message = ''Request failed with status code 400'', axios_response = Some
         \<lparr>response_status = 400, response_data = Some
         \<lparr>body_errorMessages = Some [],
           body_errors = Some [(''summary'', ''Summary is required'')]\<rparr>\<rparr>\<rparr>)
      = \<lparr>message = ''summary: Summary is required'', status = 400, errors = [(''summary'', ''Summary is required'')],
          errorMessages = []\<rparr>"
    using handleApiError_spec[THEN conjunct2, THEN conjunct1, rule_format, OF h2]
      handleApiError_spec[THEN conjunct2, THEN conjunct2, THEN conjunct2, THEN conjunct2, THEN conjunct1, rule_format, OF s2]
    by (intro JiraError.equality) simp_all
  have h3: "axios_response
        \<lparr>axios_message = ''Request failed with status code 502'', axios_response = Some
         \<lparr>response_status = 502, response_data = Some \<lparr>body_errorMessages = None, body_errors = None\<rparr>\<rparr>\<rparr>
      = Some \<lparr>response_status = 502, response_data = Some \<lparr>body_errorMessages = None, body_errors = None\<rparr>\<rparr>
    \<and> response_data \<lparr>response_status = 502, response_data = Some \<lparr>body_errorMessages = None, body_errors = None\<rparr>\<rparr>
      = Some \<lparr>body_errorMessages = None, body_errors = None\<rparr>
    \<and> (body_errorMessages \<lparr>body_errorMessages = None, body_errors = None\<rparr> = None
       \<or> body_errorMessages \<lparr>body_errorMessages = None, body_errors = None\<rparr> = Some [])
    \<and> (body_errors \<lparr>body_errorMessages = None, body_errors = None\<rparr> = None
       \<or> body_errors \<lparr>body_errorMessages = None, body_errors = None\<rparr> = Some [])"
    by simp
  have s3: "axios_response
        \<lparr>axios_message = ''Request failed with status code 502'', axios_response = Some
         \<lparr>response_status = 502, response_data = Some \<lparr>body_errorMessages = None, body_errors = None\<rparr>\<rparr>\<rparr>
      = Some \<lparr>response_status = 502, response_data = Some \<lparr>body_errorMessages = None, body_errors = None\<rparr>\<rparr>"
    by simp
  have r3: "handleApiError
        (AxiosFailure
          \<lparr>axios_message = ''Request failed with status code 502'', axios_response = Some
         \<lparr>response_status = 502, response_data = Some \<lparr>body_errorMessages = None, body_errors = None\<rparr>\<rparr>\<rparr>)
      = \<lparr>message = ''Request failed with status code 502'', status = 502, errors = [],
          errorMessages = []\<rparr>"
    using handleApiError_spec[THEN conjunct2, THEN conjunct2, THEN conjunct1, rule_format, OF h3]
      handleApiError_spec[THEN conjunct2, THEN conjunct2, THEN conjunct2, THEN conjunct2, THEN conjunct1, rule_format, OF s3]
    by (intro JiraError.equality) simp_all
  have h4: "axios_response \<lparr>axios_message = ''Network Error'', axios_response = None\<rparr> = None"
    by simp
  have d4: "axios_response \<lparr>axios_message = ''Network Error'', axios_response = None\<rparr> = None
      \<or> (axios_response \<lparr>axios_message = ''Network Error'', axios_response = None\<rparr> = Some r
          \<and> response_data r = None)"
    for r by simp
  have r4: "handleApiError
        (AxiosFailure
          \<lparr>axios_message = ''Network Error'', axios_response = None\<rparr>)
      = \<lparr>message = ''Network Error'', status = 500, errors = [],
          errorMessages = []\<rparr>"
    using handleApiError_spec[THEN conjunct2, THEN conjunct2, THEN conjunct2, THEN conjunct1, rule_format, OF d4]
      handleApiError_spec[THEN conjunct2, THEN conjunct2, THEN conjunct2, THEN conjunct2, THEN conjunct2, THEN conjunct1, rule_format, OF h4]
    by (intro JiraError.equality) simp_all
  from h1 r1 h2 r2 h3 r3 h4 r4 show ?thesis by blast
qed

subsection \<open>Resolving a transition by id or name\<close>

lemma getTransitions_Inr:
  "client_get (''/issue/'' @ key @ ''/transitions'') None w = (Inr reply, w') \<Longrightarrow>
     getTransitions client_get key w = (Inr (transitions reply), w')"
  by (simp add: getTransitions_def get_def)

text \<open>
  C4, as amended. Given the fetched candidates, \<^verbatim>\<open>transitionIssue\<close> selects the first
  candidate whose id or whose name equals the input, in one pass over the list and by
  exact equality of strings; a match by id has no priority over an earlier match by
  name. It then posts the transition request with the id of the selected candidate,
  and its outcome is the outcome of that request. When no candidate has the input as
  its id or its name, it rejects with an \<^verbatim>\<open>Error\<close> whose message names the input and
  the issue key; the outcome then does not depend on the \<^verbatim>\<open>post\<close> of the transport and
  the world is as the fetch of the candidates left it: no transition request is made.
\<close>

theorem transitionIssue_resolution:
  "(client_get (''/issue/'' @ key @ ''/transitions'') None w = (Inr reply, w')
      \<and> i < length (transitions reply)
      \<and> (transition_id (transitions reply ! i) = x \<or> transition_name (transitions reply ! i) = x)
      \<and> (\<forall>j<i. transition_id (transitions reply ! j) \<noteq> x
                 \<and> transition_name (transitions reply ! j) \<noteq> x)
    \<longrightarrow> transitionIssue client_get client_post key x w
          = (case client_post (''/issue/'' @ key @ ''/transitions'')
                    \<lparr>transition = transition_id (transitions reply ! i)\<rparr> None w' of
               (Inr u, w'') \<Rightarrow> (Inr (), w'')
             | (Inl f, w'') \<Rightarrow> (Inl (Jira (handleApiError f)), w'')))
   \<and> (client_get (''/issue/'' @ key @ ''/transitions'') None w = (Inr reply, w')
      \<and> (\<forall>t \<in> set (transitions reply). transition_id t \<noteq> x \<and> transition_name t \<noteq> x)
    \<longrightarrow> transitionIssue client_get client_post key x w
          = (Inl (PlainError (''Transition '' @ [CHR 0x22] @ x @ [CHR 0x22]
                                @ '' not found for issue '' @ key)), w'))"
proof (intro conjI impI)
  assume a: "client_get (''/issue/'' @ key @ ''/transitions'') None w = (Inr reply, w')
      \<and> i < length (transitions reply)
      \<and> (transition_id (transitions reply ! i) = x \<or> transition_name (transitions reply ! i) = x)
      \<and> (\<forall>j<i. transition_id (transitions reply ! j) \<noteq> x
                 \<and> transition_name (transitions reply ! j) \<noteq> x)"
  then have "client_get (''/issue/'' @ key @ ''/transitions'') None w = (Inr reply, w')"
    by simp
  then have g: "getTransitions client_get key w = (Inr (transitions reply), w')"
    by (rule getTransitions_Inr)
  from a have "find (\<lambda>t. transition_id t = x \<or> transition_name t = x) (transitions reply)
      = Some (transitions reply ! i)"
    unfolding find_Some_iff by blast
  with g show "transitionIssue client_get client_post key x w
          = (case client_post (''/issue/'' @ key @ ''/transitions'')
                    \<lparr>transition = transition_id (transitions reply ! i)\<rparr> None w' of
               (Inr u, w'') \<Rightarrow> (Inr (), w'')
             | (Inl f, w'') \<Rightarrow> (Inl (Jira (handleApiError f)), w''))"
    by (simp add: transitionIssue_def post_def split: prod.splits sum.splits)
next
  assume a: "client_get (''/issue/'' @ key @ ''/transitions'') None w = (Inr reply, w')
      \<and> (\<forall>t \<in> set (transitions reply). transition_id t \<noteq> x \<and> transition_name t \<noteq> x)"
  then have "client_get (''/issue/'' @ key @ ''/transitions'') None w = (Inr reply, w')"
    by simp
  then have g: "getTransitions client_get key w = (Inr (transitions reply), w')"
    by (rule getTransitions_Inr)
  from a have "find (\<lambda>t. transition_id t = x \<or> transition_name t = x) (transitions reply) = None"
    unfolding find_None_iff by blast
  with g show "transitionIssue client_get client_post key x w
          = (Inl (PlainError (''Transition '' @ [CHR 0x22] @ x @ [CHR 0x22]
                                @ '' not found for issue '' @ key)), w')"
    by (simp add: transitionIssue_def notFoundMessage_def)
qed

text \<open>
  The cases of the test suite, on a transport that records the requests posted: by
  id, by name, and a name that no candidate has; then a name in another case than the
  candidate's, which is not found either.
\<close>

theorem transitionIssue_resolution_witness:
  "transitionIssue
      (resolveWith
        \<lparr>transitions =
           [\<lparr>transition_id = ''10000'', transition_name = ''To Do''\<rparr>,
            \<lparr>transition_id = ''10001'', transition_name = ''In Progress''\<rparr>]\<rparr>)
      recordSend ''TEST-1'' ''10001'' []
     = (Inr (), [(''/issue/TEST-1/transitions'', \<lparr>transition = ''10001''\<rparr>)])
   \<and> transitionIssue
      (resolveWith
        \<lparr>transitions =
           [\<lparr>transition_id = ''10000'', transition_name = ''To Do''\<rparr>,
            \<lparr>transition_id = ''10001'', transition_name = ''In Progress''\<rparr>]\<rparr>)
      recordSend ''TEST-1'' ''In Progress'' []
     = (Inr (), [(''/issue/TEST-1/transitions'', \<lparr>transition = ''10001''\<rparr>)])
   \<and> transitionIssue
      (resolveWith
        \<lparr>transitions =
           [\<lparr>transition_id = ''10000'', transition_name = ''To Do''\<rparr>,
            \<lparr>transition_id = ''10001'', transition_name = ''In Progress''\<rparr>]\<rparr>)
      recordSend ''TEST-1'' ''Done'' []
     = (Inl (PlainError (''Transition '' @ [CHR 0x22] @ ''Done'' @ [CHR 0x22]
                           @ '' not found for issue TEST-1'')), [])
   \<and> transitionIssue
      (resolveWith
        \<lparr>transitions =
           [\<lparr>transition_id = ''10000'', transition_name = ''To Do''\<rparr>,
            \<lparr>transition_id = ''10001'', transition_name = ''In Progress''\<rparr>]\<rparr>)
      recordSend ''TEST-1'' ''in progress'' []
     = (Inl (PlainError (''Transition '' @ [CHR 0x22] @ ''in progress'' @ [CHR 0x22]
                           @ '' not found for issue TEST-1'')), [])"
proof -
  define reply where "reply =
    \<lparr>transitions =
           [\<lparr>transition_id = ''10000'', transition_name = ''To Do''\<rparr>,
            \<lparr>transition_id = ''10001'', transition_name = ''In Progress''\<rparr>]\<rparr>"
  define w0 where "w0 = ([] :: (string \<times> TransitionRequest) list)"
  have g: "resolveWith reply (''/issue/'' @ ''TEST-1'' @ ''/transitions'') None w0 = (Inr reply, w0)"
    by (simp add: resolveWith_def)
  have h1: "resolveWith reply (''/issue/'' @ ''TEST-1'' @ ''/transitions'') None w0 = (Inr reply, w0)
      \<and> 1 < length (transitions reply)
      \<and> (transition_id (transitions reply ! 1) = ''10001''
           \<or> transition_name (transitions reply ! 1) = ''10001'')
      \<and> (\<forall>j<1. transition_id (transitions reply ! j) \<noteq> ''10001''
                 \<and> transition_name (transitions reply ! j) \<noteq> ''10001'')"
    using g by (simp add: reply_def)
  have h2: "resolveWith reply (''/issue/'' @ ''TEST-1'' @ ''/transitions'') None w0 = (Inr reply, w0)
      \<and> 1 < length (transitions reply)
      \<and> (transition_id (transitions reply ! 1) = ''In Progress''
           \<or> transition_name (transitions reply ! 1) = ''In Progress'')
      \<and> (\<forall>j<1. transition_id (transitions reply ! j) \<noteq> ''In Progress''
                 \<and> transition_name (transitions reply ! j) \<noteq> ''In Progress'')"
    using g by (simp add: reply_def)
  have h3: "resolveWith reply (''/issue/'' @ ''TEST-1'' @ ''/transitions'') None w0 = (Inr reply, w0)
      \<and> (\<forall>t \<in> set (transitions reply). transition_id t \<noteq> ''Done'' \<and> transition_name t \<noteq> ''Done'')"
    using g by (simp add: reply_def)
  have h4: "resolveWith reply (''/issue/'' @ ''TEST-1'' @ ''/transitions'') None w0 = (Inr reply, w0)
      \<and> (\<forall>t \<in> set (transitions reply).
            transition_id t \<noteq> ''in progress'' \<and> transition_name t \<noteq> ''in progress'')"
    using g by (simp add: reply_def)
  note t1 = transitionIssue_resolution[where client_get = "resolveWith reply" and client_post = recordSend
      and key = "''TEST-1''" and w = w0 and w' = w0 and reply = reply and x = "''10001''" and i = 1,
      THEN conjunct1, rule_format, OF h1]
  note t2 = transitionIssue_resolution[where client_get = "resolveWith reply" and client_post = recordSend
      and key = "''TEST-1''" and w = w0 and w' = w0 and reply = reply and x = "''In Progress''" and i = 1,
      THEN conjunct1, rule_format, OF h2]
  note t3 = transitionIssue_resolution[where client_get = "resolveWith reply" and client_post = recordSend
      and key = "''TEST-1''" and w = w0 and w' = w0 and reply = reply and x = "''Done''",
      THEN conjunct2, rule_format, OF h3]
  note t4 = transitionIssue_resolution[where client_get = "resolveWith reply" and client_post = recordSend
      and key = "''TEST-1''" and w = w0 and w' = w0 and reply = reply and x = "''in progress''",
      THEN conjunct2, rule_format, OF h4]
  from t1 t2 t3 t4 show ?thesis
    by (simp add: reply_def w0_def recordSend_def)
qed

text \<open>
  C4 as stated gives a match by id priority over a match by name. With a first
  candidate named \<^verbatim>\<open>21\<close> and a second candidate whose id is \<^verbatim>\<open>21\<close>, the first
  candidate whose id equals the input is the second one, and the request posted
  carries the id of the first.
\<close>

theorem transitionIssue_priority_counterexample:
  "selectIdThenName
      [\<lparr>transition_id = ''11'', transition_name = ''21''\<rparr>,
       \<lparr>transition_id = ''21'', transition_name = ''Done''\<rparr>] ''21''
     = Some \<lparr>transition_id = ''21'', transition_name = ''Done''\<rparr>
   \<and> transitionIssue
        (resolveWith
          \<lparr>transitions =
             [\<lparr>transition_id = ''11'', transition_name = ''21''\<rparr>,
              \<lparr>transition_id = ''21'', transition_name = ''Done''\<rparr>]\<rparr>)
        recordSend ''TEST-1'' ''21'' []
     = (Inr (), [(''/issue/TEST-1/transitions'', \<lparr>transition = ''11''\<rparr>)])"
  by (simp add: selectIdThenName_def transitionIssue_def getTransitions_def get_def post_def
      resolveWith_def recordSend_def)

subsection \<open>The aggregation loop\<close>























end
